theory Spec2Isabelle
  imports Main "HOL-Library.Word"
begin

section \<open>Strings and bytes\<close>

text \<open>
  A JavaScript string is modelled as a \<^typ>\<open>string\<close>: one \<^typ>\<open>char\<close> per code unit, for
  text whose code units are below 256. Binary data (\<open>Uint8Array\<close>, \<open>ArrayBuffer\<close>, the
  contents of a \<open>File\<close>) is a list of 8-bit words.
\<close>

type_synonym bytes = "8 word list"

text \<open>\<open>TextEncoder.encode\<close>: UTF-8, one byte below 128 and two bytes from 128 to 255.\<close>

definition encode_unit :: "char \<Rightarrow> bytes" where
  "encode_unit c =
     (let n = (of_char c :: nat)
      in if n < 128 then [of_nat n]
         else [of_nat (192 + n div 64), of_nat (128 + n mod 64)])"

definition encode :: "string \<Rightarrow> bytes" where
  "encode s = concat (map encode_unit s)"

text \<open>\<open>String.prototype.startsWith\<close> and \<open>endsWith\<close>.\<close>

definition startsWith :: "string \<Rightarrow> string \<Rightarrow> bool" where
  "startsWith s p = (take (length p) s = p)"

definition endsWith :: "string \<Rightarrow> string \<Rightarrow> bool" where
  "endsWith s p = (length p \<le> length s \<and> drop (length s - length p) s = p)"

text \<open>\<open>String.prototype.includes\<close>.\<close>

fun str_includes :: "string \<Rightarrow> string \<Rightarrow> bool" where
  "str_includes [] sub = (sub = [])"
| "str_includes (c # cs) sub = (startsWith (c # cs) sub \<or> str_includes cs sub)"

text \<open>
  \<open>String.prototype.split\<close> with a one-character separator. The result is never empty:
  splitting the empty string gives one empty string.
\<close>

fun str_split :: "char \<Rightarrow> string \<Rightarrow> string list" where
  "str_split sep [] = [[]]"
| "str_split sep (c # cs) =
     (if c = sep then [] # str_split sep cs
      else (case str_split sep cs of
              [] \<Rightarrow> [[c]]
            | piece # pieces \<Rightarrow> (c # piece) # pieces))"

text \<open>
  \<open>String.prototype.trim\<close> removes white space and line terminators at both ends. Below
  256 these are the code units 9 to 13, 32 and 160.
\<close>

definition is_space :: "char \<Rightarrow> bool" where
  "is_space c = (let n = (of_char c :: nat) in (9 \<le> n \<and> n \<le> 13) \<or> n = 32 \<or> n = 160)"

definition trim :: "string \<Rightarrow> string" where
  "trim s = rev (dropWhile is_space (rev (dropWhile is_space s)))"

text \<open>The decimal form of a natural number, as \<open>Number.prototype.toString\<close> gives it.\<close>

fun decimal :: "nat \<Rightarrow> string" where
  "decimal n =
     (if n < 10 then [char_of (48 + n)]
      else decimal (n div 10) @ [char_of (48 + n mod 10)])"

declare decimal.simps [simp del]

text \<open>\<open>Array.prototype.join\<close> with a separator string.\<close>

fun join_with :: "string \<Rightarrow> string list \<Rightarrow> string" where
  "join_with sep [] = []"
| "join_with sep [x] = x"
| "join_with sep (x # y # ys) = x @ sep @ join_with sep (y # ys)"

text \<open>
  What \<open>String(data)\<close> gives for a \<open>Uint8Array\<close>: the elements in decimal, joined by
  commas.
\<close>

definition Uint8Array_toString :: "bytes \<Rightarrow> string" where
  "Uint8Array_toString bs = join_with '','' (map (\<lambda>b. decimal (unat b)) bs)"

text \<open>
  The substitution patterns that \<open>String.prototype.replace\<close> expands in its replacement
  string when the pattern is a string (so there are no capture groups): \<open>$$\<close>, \<open>$&\<close>,
  \<open>$`\<close> and \<open>$'\<close>. Every other \<open>$\<close> stays as it is.
\<close>

fun GetSubstitution :: "string \<Rightarrow> string \<Rightarrow> string \<Rightarrow> string \<Rightarrow> string" where
  "GetSubstitution matched pre post [] = []"
| "GetSubstitution matched pre post [c] = [c]"
| "GetSubstitution matched pre post (c # d # rest) =
     (if c = CHR ''$'' then
        (if d = CHR ''$'' then CHR ''$'' # GetSubstitution matched pre post rest
         else if d = CHR ''&'' then matched @ GetSubstitution matched pre post rest
         else if d = CHR 0x60 then pre @ GetSubstitution matched pre post rest
         else if d = CHR 0x27 then post @ GetSubstitution matched pre post rest
         else c # GetSubstitution matched pre post (d # rest))
      else c # GetSubstitution matched pre post (d # rest))"

text \<open>
  The text before and after the first occurrence of \<open>sub\<close> in a string, if there is
  one.
\<close>

fun first_occurrence :: "string \<Rightarrow> string \<Rightarrow> (string \<times> string) option" where
  "first_occurrence [] sub = (if sub = [] then Some ([], []) else None)"
| "first_occurrence (c # cs) sub =
     (if startsWith (c # cs) sub then Some ([], drop (length sub) (c # cs))
      else (case first_occurrence cs sub of
              None \<Rightarrow> None
            | Some (pre, post) \<Rightarrow> Some (c # pre, post)))"

text \<open>\<open>String.prototype.replace\<close> with a string pattern: the first occurrence only.\<close>

definition str_replace :: "string \<Rightarrow> string \<Rightarrow> string \<Rightarrow> string" where
  "str_replace s pat repl =
     (case first_occurrence s pat of
        None \<Rightarrow> s
      | Some (pre, post) \<Rightarrow> pre @ GetSubstitution pat pre post repl @ post)"

text \<open>
  The regular expression \<open>/\.([\w]+)$/\<close> of \<open>ImageAsset.createFileObject\<close>: the capture is
  the run of word characters that ends the string, when that run is not empty and a dot
  stands before it; there is no match otherwise.
\<close>

definition is_word :: "char \<Rightarrow> bool" where
  "is_word c =
     (let n = (of_char c :: nat)
      in (48 \<le> n \<and> n \<le> 57) \<or> (65 \<le> n \<and> n \<le> 90) \<or> n = 95 \<or> (97 \<le> n \<and> n \<le> 122))"

definition match_extension :: "string \<Rightarrow> string option" where
  "match_extension src =
     (let w = takeWhile is_word (rev src); rest = dropWhile is_word (rev src)
      in if w \<noteq> [] \<and> rest \<noteq> [] \<and> hd rest = CHR ''.'' then Some (rev w) else None)"

text \<open>
  A value interpolated in a template literal: \<open>undefined\<close> is printed as the word
  \<open>undefined\<close>.
\<close>

definition template :: "string option \<Rightarrow> string" where
  "template v = (case v of None \<Rightarrow> ''undefined'' | Some s \<Rightarrow> s)"

text \<open>The regular expression replacement \<open>filename.replace(/\.html$/, "")\<close>.\<close>

definition strip_html :: "string \<Rightarrow> string" where
  "strip_html f = (if endsWith f ''.html'' then take (length f - 5) f else f)"

text \<open>Upper and lower case of ASCII letters.\<close>

definition to_lower :: "char \<Rightarrow> char" where
  "to_lower c =
     (let n = (of_char c :: nat) in if 65 \<le> n \<and> n \<le> 90 then char_of (n + 32) else c)"

definition to_upper :: "char \<Rightarrow> char" where
  "to_upper c =
     (let n = (of_char c :: nat) in if 97 \<le> n \<and> n \<le> 122 then char_of (n - 32) else c)"

section \<open>Values, errors and files\<close>

text \<open>
  The values that \<open>md5\<close> and the \<open>File\<close> constructor receive: a string, an
  \<open>ArrayBuffer\<close>, or a \<open>Uint8Array\<close> (what \<open>Deno.readFile\<close> returns).
\<close>

datatype js_data = JsString string | ArrayBuffer bytes | Uint8Array bytes

text \<open>
  Every \<open>throw\<close> and rejected promise is a value: \<open>Error\<close> carries the message of the
  errors the program itself throws, \<open>SyntaxError\<close> is what the \<open>RegExp\<close> constructor
  throws, \<open>TypeError\<close> a read of a property of \<open>undefined\<close>, and \<open>External\<close> a
  failure of a collaborator (file system, bundler, preprocessor, dependency query).
\<close>

datatype error = Error string | SyntaxError string | TypeError | External string

text \<open>
  The document: its elements in document order, each with the \<open>tagName\<close> the DOM
  reports (upper case for the elements of a parsed HTML document) and its attributes. An
  element is referred to by its position, so an asset and the document share the
  element, as the objects of the program do.
\<close>

record element =
  tagName :: string
  attributes :: "(string \<times> string) list"

type_synonym document = "element list"

definition getAttribute :: "document \<Rightarrow> nat \<Rightarrow> string \<Rightarrow> string option" where
  "getAttribute doc el name =
     (if el < length doc then map_of (attributes (doc ! el)) name else None)"

fun update_attribute :: "string \<Rightarrow> string \<Rightarrow> (string \<times> string) list \<Rightarrow> (string \<times> string) list" where
  "update_attribute name v [] = [(name, v)]"
| "update_attribute name v ((k, w) # rest) =
     (if k = name then (k, v) # rest else (k, w) # update_attribute name v rest)"

definition setAttribute :: "document \<Rightarrow> nat \<Rightarrow> string \<Rightarrow> string \<Rightarrow> document" where
  "setAttribute doc el name v =
     (if el < length doc
      then doc[el := (doc ! el)\<lparr>attributes := update_attribute name v (attributes (doc ! el))\<rparr>]
      else doc)"

text \<open>
  \<open>querySelectorAll\<close> with a type selector, and its wrapper \<open>qs\<close> of \<open>util.ts\<close>: the
  elements of that tag, in document order.
\<close>

definition querySelectorAll :: "document \<Rightarrow> string \<Rightarrow> nat list" where
  "querySelectorAll doc query =
     filter (\<lambda>i. tagName (doc ! i) = map to_upper query) [0..<length doc]"

definition qs :: "document \<Rightarrow> string \<Rightarrow> nat list" where
  "qs doc query = querySelectorAll doc query"

text \<open>
  A JavaScript number. The program only prints one, the port of the live reload server,
  so the type is left open and its printing is a collaborator.
\<close>

typedecl number

text \<open>
  The collaborators of the program, which are not part of it: the file system, the text
  decoder, the hash primitive and its hex encoding, the path functions, the HTML parser
  and serializer, the bundler, the stylesheet preprocessor, the regular expression engine
  (for the patterns that \<open>String_match\<close> below does not evaluate itself), the module
  graph query, \<open>fromFileUrl\<close>, the printing of a number, and the clock.
\<close>

record env =
  readFile :: "string \<Rightarrow> error + bytes"
  decode :: "bytes \<Rightarrow> string"
  subtle_digest :: "string \<Rightarrow> bytes \<Rightarrow> bytes"
  toHashString :: "bytes \<Rightarrow> string"
  join :: "string \<Rightarrow> string \<Rightarrow> string"
  posixPathJoin :: "string \<Rightarrow> string \<Rightarrow> string"
  basename :: "string \<Rightarrow> string"
  dirname :: "string \<Rightarrow> string"
  parseFromString :: "string \<Rightarrow> document"
  outerHTML :: "document \<Rightarrow> string"
  bundleByEsbuild :: "string \<Rightarrow> error + js_data"
  compileSass :: "string \<Rightarrow> error + js_data"
  RegExp_search :: "string \<Rightarrow> string \<Rightarrow> error + bool"
  deno_info :: "string \<Rightarrow> error + string list"
  fromFileUrl :: "string \<Rightarrow> string"
  Number_toString :: "number \<Rightarrow> string"
  now :: int

text \<open>
  \<open>md5\<close> of \<open>util.ts\<close>. Only an \<open>ArrayBuffer\<close> passes the \<open>instanceof\<close> test; any
  other value goes through \<open>TextEncoder.encode\<close>, which converts its argument to a string
  first.
\<close>

definition md5 :: "env \<Rightarrow> js_data \<Rightarrow> string" where
  "md5 env data =
     toHashString env (subtle_digest env ''MD5''
       (case data of
          ArrayBuffer b \<Rightarrow> b
        | JsString s \<Rightarrow> encode s
        | Uint8Array b \<Rightarrow> encode (Uint8Array_toString b)))"

text \<open>\<open>isLocalUrl\<close> of \<open>util.ts\<close>.\<close>

definition isLocalUrl :: "string \<Rightarrow> bool" where
  "isLocalUrl url = (\<not> (startsWith url ''http://'' \<or> startsWith url ''https://''))"

text \<open>\<open>getDependencies\<close>, \<open>getLocalDependencies\<close> and \<open>getLocalDependencyPaths\<close>.\<close>

definition getDependencies :: "env \<Rightarrow> string \<Rightarrow> error + string list" where
  "getDependencies env path = deno_info env path"

definition getLocalDependencies :: "env \<Rightarrow> string \<Rightarrow> error + string list" where
  "getLocalDependencies env path =
     (case getDependencies env path of
        Inl e \<Rightarrow> Inl e
      | Inr specs \<Rightarrow> Inr (filter (\<lambda>s. startsWith s ''file:'') specs))"

definition getLocalDependencyPaths :: "env \<Rightarrow> string \<Rightarrow> error + string list" where
  "getLocalDependencyPaths env path =
     (case getLocalDependencies env path of
        Inl e \<Rightarrow> Inl e
      | Inr specs \<Rightarrow> Inr (map (fromFileUrl env) specs))"

text \<open>
  A \<open>File\<close>, and the options of its constructor. The bytes are those of the parts, a
  string part in UTF-8. The media type is normalised as \<open>Blob\<close> does: lower case, and
  empty when a character is outside the printable ASCII range. A missing
  \<open>lastModified\<close> is the current time.
\<close>

record File =
  file_name :: string
  file_bytes :: bytes
  lastModified :: int
  file_type :: string

record FilePropertyBag =
  opt_lastModified :: "int option"
  opt_type :: "string option"

definition part_bytes :: "js_data \<Rightarrow> bytes" where
  "part_bytes part =
     (case part of JsString s \<Rightarrow> encode s | ArrayBuffer b \<Rightarrow> b | Uint8Array b \<Rightarrow> b)"

definition normalizeType :: "string \<Rightarrow> string" where
  "normalizeType t =
     (if list_all (\<lambda>c. 32 \<le> (of_char c :: nat) \<and> (of_char c :: nat) \<le> 126) t
      then map to_lower t else [])"

definition new_File :: "env \<Rightarrow> js_data list \<Rightarrow> string \<Rightarrow> FilePropertyBag \<Rightarrow> File" where
  "new_File env parts name options =
     \<lparr>file_name = name,
      file_bytes = concat (map part_bytes parts),
      lastModified = (case opt_lastModified options of None \<Rightarrow> now env | Some t \<Rightarrow> t),
      file_type = normalizeType (case opt_type options of None \<Rightarrow> [] | Some t \<Rightarrow> t)\<rparr>"

text \<open>
  The object spread \<open>{...file}\<close> copies the own enumerable properties of its operand.
  \<open>name\<close>, \<open>type\<close> and \<open>lastModified\<close> of a \<open>File\<close> are accessors of its prototype, so
  the copy has neither a \<open>type\<close> nor a \<open>lastModified\<close>.
\<close>

definition spread_File :: "File \<Rightarrow> FilePropertyBag" where
  "spread_File f = \<lparr>opt_lastModified = None, opt_type = None\<rparr>"

section \<open>Regular expression search with a string pattern\<close>

text \<open>
  \<open>text.match(pattern)\<close> with a string \<open>pattern\<close> compiles the pattern as a regular
  expression and searches the text for it. For a pattern without any of the syntax
  characters \<open>^ $ * + ? ( ) [ ] { } |\<close> and backslash the search is written out here: every
  character stands for itself, except the dot, which stands for any character other than
  a line terminator. Every other pattern is left to the engine, which may throw a
  \<open>SyntaxError\<close>.
\<close>

definition plain_char :: "char \<Rightarrow> bool" where
  "plain_char c = (c \<notin> set (CHR 0x5C # ''^$*+?()[]{}|''))"

definition dot_matches :: "char \<Rightarrow> bool" where
  "dot_matches c = (of_char c \<noteq> (10 :: nat) \<and> of_char c \<noteq> (13 :: nat))"

fun match_here :: "string \<Rightarrow> string \<Rightarrow> bool" where
  "match_here [] t = True"
| "match_here (p # ps) [] = False"
| "match_here (p # ps) (c # cs) =
     ((if p = CHR ''.'' then dot_matches c else p = c) \<and> match_here ps cs)"

fun search_plain :: "string \<Rightarrow> string \<Rightarrow> bool" where
  "search_plain pat [] = match_here pat []"
| "search_plain pat (c # cs) = (match_here pat (c # cs) \<or> search_plain pat cs)"

definition String_match :: "env \<Rightarrow> string \<Rightarrow> string \<Rightarrow> error + bool" where
  "String_match env text pat =
     (if list_all plain_char pat then Inr (search_plain pat text)
      else RegExp_search env pat text)"

section \<open>Assets\<close>

text \<open>
  The four asset classes. Each holds the reference it was created from and the element
  it will rewrite; an \<open>ImageAsset\<close> holds its list of sources.
\<close>

datatype asset =
    CssAsset string nat
  | ScssAsset string nat
  | ScriptAsset string nat
  | ImageAsset "string list" nat

record CreateFileObjectParams =
  pageName :: string
  base :: string
  pathPrefix :: string

text \<open>A value is truthy when it is neither \<open>null\<close> nor the empty string.\<close>

definition truthy :: "string option \<Rightarrow> bool" where
  "truthy v = (case v of None \<Rightarrow> False | Some s \<Rightarrow> s \<noteq> [])"

subsection \<open>Stylesheets\<close>

definition CssAsset_create :: "document \<Rightarrow> nat \<Rightarrow> asset option" where
  "CssAsset_create doc link =
     (let href = getAttribute doc link ''href'';
          rel = getAttribute doc link ''rel''
      in if rel \<noteq> Some ''stylesheet'' then None
         else (case href of
                 None \<Rightarrow> None
               | Some h \<Rightarrow>
                   if h = [] then None
                   else if startsWith h ''https://'' \<or> startsWith h ''http://'' then None
                   else if endsWith h ''.scss'' then Some (ScssAsset h link)
                   else Some (CssAsset h link)))"

definition CssAsset_getWatchPaths :: "env \<Rightarrow> string \<Rightarrow> string \<Rightarrow> error + string list" where
  "CssAsset_getWatchPaths env href b = Inr [join env b href]"

definition CssAsset_createFileObject ::
  "env \<Rightarrow> CreateFileObjectParams \<Rightarrow> string \<Rightarrow> nat \<Rightarrow> document \<Rightarrow> error + document \<times> File list" where
  "CssAsset_createFileObject env params href el doc =
     (case readFile env (join env (base params) href) of
        Inl e \<Rightarrow> Inl e
      | Inr data \<Rightarrow>
          (let hashed = md5 env (Uint8Array data);
               dest = pageName params @ ''.'' @ hashed @ ''.css'';
               doc' = setAttribute doc el ''href'' (posixPathJoin env (pathPrefix params) dest)
           in Inr (doc', [new_File env [Uint8Array data] dest
                 \<lparr>opt_lastModified = Some 0, opt_type = Some ''text/css''\<rparr>])))"

definition ScssAsset_createFileObject ::
  "env \<Rightarrow> CreateFileObjectParams \<Rightarrow> string \<Rightarrow> nat \<Rightarrow> document \<Rightarrow> error + document \<times> File list" where
  "ScssAsset_createFileObject env params href el doc =
     (case readFile env (join env (base params) href) of
        Inl e \<Rightarrow> Inl e
      | Inr scss \<Rightarrow>
          (let hashed = md5 env (Uint8Array scss);
               dest = pageName params @ ''.'' @ hashed @ ''.css'';
               doc' = setAttribute doc el ''href'' (posixPathJoin env (pathPrefix params) dest)
           in (case compileSass env (decode env scss) of
                 Inl e \<Rightarrow> Inl e
               | Inr css \<Rightarrow>
                   Inr (doc', [new_File env [css] dest
                     \<lparr>opt_lastModified = Some 0, opt_type = Some ''text/css''\<rparr>]))))"

subsection \<open>Scripts\<close>

definition ScriptAsset_create :: "document \<Rightarrow> nat \<Rightarrow> asset option" where
  "ScriptAsset_create doc script =
     (case getAttribute doc script ''src'' of
        None \<Rightarrow> None
      | Some src \<Rightarrow>
          if src = [] then None
          else if startsWith src ''http://'' \<or> startsWith src ''https://'' then None
          else Some (ScriptAsset src script))"

definition ScriptAsset_getWatchPaths :: "env \<Rightarrow> string \<Rightarrow> string \<Rightarrow> error + string list" where
  "ScriptAsset_getWatchPaths env src b = getLocalDependencyPaths env (join env b src)"

definition ScriptAsset_createFileObject ::
  "env \<Rightarrow> CreateFileObjectParams \<Rightarrow> string \<Rightarrow> nat \<Rightarrow> document \<Rightarrow> error + document \<times> File list" where
  "ScriptAsset_createFileObject env params src el doc =
     (let path = join env (base params) src
      in case bundleByEsbuild env path of
           Inl e \<Rightarrow> Inl e
         | Inr data \<Rightarrow>
             (let hashed = md5 env data;
                  dest = pageName params @ ''.'' @ hashed @ ''.js'';
                  doc' = setAttribute doc el ''src'' (posixPathJoin env (pathPrefix params) dest)
              in Inr (doc', [new_File env [data] dest
                    \<lparr>opt_lastModified = Some 0, opt_type = Some ''application/javascript''\<rparr>])))"

subsection \<open>Images\<close>

text \<open>
  The sources that \<open>ImageAsset.create\<close> collects: the \<open>src\<close> attribute when it is local,
  then the local first tokens of the \<open>srcset\<close> entries. \<open>uniq\<close> is \<open>[...new Set(sources)]\<close>:
  the first occurrence of every element, in order.
\<close>

definition srcset_sources :: "string \<Rightarrow> string list" where
  "srcset_sources srcset =
     filter isLocalUrl
       (map (\<lambda>src. hd (str_split CHR '' '' src))
         (map trim
           (filter (\<lambda>s. s \<noteq> []) (str_split CHR '','' srcset))))"

definition collect_sources :: "string option \<Rightarrow> string option \<Rightarrow> string list" where
  "collect_sources src srcset =
     (case src of
        None \<Rightarrow> []
      | Some s \<Rightarrow> if s \<noteq> [] \<and> isLocalUrl s then [s] else [])
     @ (case srcset of
          None \<Rightarrow> []
        | Some ss \<Rightarrow> if ss \<noteq> [] then srcset_sources ss else [])"

definition uniq :: "string list \<Rightarrow> string list" where
  "uniq xs = rev (remdups (rev xs))"

definition ImageAsset_create :: "document \<Rightarrow> nat \<Rightarrow> asset option" where
  "ImageAsset_create doc img =
     (let src = getAttribute doc img ''src'';
          srcset = getAttribute doc img ''srcset''
      in if img < length doc \<and> tagName (doc ! img) = ''IMG'' \<and> \<not> truthy src then None
         else (let sources = uniq (collect_sources src srcset)
               in if length sources = 0 then None
                  else Some (ImageAsset sources img)))"

fun collect_paths :: "('a \<Rightarrow> error + string list) \<Rightarrow> 'a list \<Rightarrow> error + string list" where
  "collect_paths f [] = Inr []"
| "collect_paths f (x # xs) =
     (case f x of
        Inl e \<Rightarrow> Inl e
      | Inr ps \<Rightarrow> (case collect_paths f xs of Inl e \<Rightarrow> Inl e | Inr ps' \<Rightarrow> Inr (ps @ ps')))"

definition ImageAsset_getWatchPaths :: "env \<Rightarrow> string list \<Rightarrow> string \<Rightarrow> error + string list" where
  "ImageAsset_getWatchPaths env sources b =
     collect_paths (\<lambda>src. getLocalDependencyPaths env (join env b src)) sources"

text \<open>
  One round of the loop of \<open>ImageAsset.createFileObject\<close>: read the source, name the
  artifact, rewrite \<open>src\<close> when \<open>match\<close> finds the source in it, rewrite \<open>srcset\<close> when it
  includes the source, and give the file to push.
\<close>

definition ImageAsset_step ::
  "env \<Rightarrow> CreateFileObjectParams \<Rightarrow> nat \<Rightarrow> string \<Rightarrow> document \<Rightarrow> error + document \<times> File" where
  "ImageAsset_step env params el src doc =
     (case readFile env (join env (base params) src) of
        Inl e \<Rightarrow> Inl e
      | Inr data \<Rightarrow>
          (let extension = match_extension src;
               hashed = md5 env (Uint8Array data);
               dest = pageName params @ ''.'' @ hashed @ ''.'' @ template extension
           in case (case getAttribute doc el ''src'' of
                      None \<Rightarrow> Inr False
                    | Some s \<Rightarrow> String_match env s src) of
                Inl e \<Rightarrow> Inl e
              | Inr matched \<Rightarrow>
                  (let doc1 = (if matched
                               then setAttribute doc el ''src'' (posixPathJoin env (pathPrefix params) dest)
                               else doc);
                       doc2 = (case getAttribute doc1 el ''srcset'' of
                                 None \<Rightarrow> doc1
                               | Some srcset \<Rightarrow>
                                   if str_includes srcset src
                                   then setAttribute doc1 el ''srcset''
                                          (str_replace srcset src (posixPathJoin env (pathPrefix params) dest))
                                   else doc1)
                   in Inr (doc2, new_File env [Uint8Array data] dest
                                   \<lparr>opt_lastModified = Some 0,
                                    opt_type = Some (''image/'' @ template extension)\<rparr>))))"

text \<open>The loop over the sources, with the document and the files pushed so far.\<close>

fun ImageAsset_loop ::
  "env \<Rightarrow> CreateFileObjectParams \<Rightarrow> nat \<Rightarrow> string list \<Rightarrow> document \<Rightarrow> File list
     \<Rightarrow> error + document \<times> File list" where
  "ImageAsset_loop env params el [] doc files = Inr (doc, files)"
| "ImageAsset_loop env params el (src # rest) doc files =
     (case ImageAsset_step env params el src doc of
        Inl e \<Rightarrow> Inl e
      | Inr (doc', f) \<Rightarrow> ImageAsset_loop env params el rest doc' (files @ [f]))"

definition ImageAsset_createFileObject ::
  "env \<Rightarrow> CreateFileObjectParams \<Rightarrow> string list \<Rightarrow> nat \<Rightarrow> document \<Rightarrow> error + document \<times> File list" where
  "ImageAsset_createFileObject env params sources el doc =
     ImageAsset_loop env params el sources doc []"

subsection \<open>The methods of an asset, by class\<close>

fun createFileObject ::
  "env \<Rightarrow> CreateFileObjectParams \<Rightarrow> asset \<Rightarrow> document \<Rightarrow> error + document \<times> File list" where
  "createFileObject env params (CssAsset href el) doc = CssAsset_createFileObject env params href el doc"
| "createFileObject env params (ScssAsset href el) doc = ScssAsset_createFileObject env params href el doc"
| "createFileObject env params (ScriptAsset src el) doc = ScriptAsset_createFileObject env params src el doc"
| "createFileObject env params (ImageAsset sources el) doc =
     ImageAsset_createFileObject env params sources el doc"

fun getWatchPaths :: "env \<Rightarrow> asset \<Rightarrow> string \<Rightarrow> error + string list" where
  "getWatchPaths env (CssAsset href el) b = CssAsset_getWatchPaths env href b"
| "getWatchPaths env (ScssAsset href el) b = CssAsset_getWatchPaths env href b"
| "getWatchPaths env (ScriptAsset src el) b = ScriptAsset_getWatchPaths env src b"
| "getWatchPaths env (ImageAsset sources el) b = ImageAsset_getWatchPaths env sources b"

subsection \<open>Discovery\<close>

definition extractReferencedScripts :: "document \<Rightarrow> asset list" where
  "extractReferencedScripts doc = List.map_filter (ScriptAsset_create doc) (qs doc ''script'')"

definition extractReferencedStyleSheets :: "document \<Rightarrow> asset list" where
  "extractReferencedStyleSheets doc = List.map_filter (CssAsset_create doc) (qs doc ''link'')"

definition extractReferencedImages :: "document \<Rightarrow> asset list" where
  "extractReferencedImages doc =
     List.map_filter (ImageAsset_create doc) (qs doc ''img'' @ qs doc ''source'')"

definition extractReferencedAssets :: "document \<Rightarrow> asset list" where
  "extractReferencedAssets doc =
     extractReferencedScripts doc @ extractReferencedStyleSheets doc @ extractReferencedImages doc"

section \<open>The entry document and one generation cycle\<close>

record HtmlAsset =
  html_doc :: document
  html_path :: string
  html_base :: string
  html_filename :: string
  html_pageName :: string

definition docType :: bytes where
  "docType = encode ''<!DOCTYPE html>''"

text \<open>The constructor of \<open>HtmlAsset\<close>, with its two \<open>throw\<close> statements.\<close>

definition HtmlAsset_new :: "env \<Rightarrow> string \<Rightarrow> string \<Rightarrow> error + HtmlAsset" where
  "HtmlAsset_new env html path =
     (let doc = parseFromString env html;
          b = dirname env path;
          filename = basename env path
      in if \<not> endsWith filename ''.html''
         then Inl (Error (''Entrypoint needs to be an html file: '' @ path))
         else (let name = strip_html filename
               in if name = [] then Inl (Error (''Bad entrypoint name: '' @ path))
                  else Inr \<lparr>html_doc = doc, html_path = path, html_base = b,
                            html_filename = filename, html_pageName = name\<rparr>))"

definition HtmlAsset_create :: "env \<Rightarrow> string \<Rightarrow> error + HtmlAsset" where
  "HtmlAsset_create env path =
     (case readFile env path of
        Inl e \<Rightarrow> Inl e
      | Inr data \<Rightarrow> HtmlAsset_new env (decode env data) path)"

definition HtmlAsset_createFileObject :: "env \<Rightarrow> HtmlAsset \<Rightarrow> File list" where
  "HtmlAsset_createFileObject env h =
     [new_File env [Uint8Array docType, Uint8Array (encode (outerHTML env (html_doc h)))]
        (html_filename h)
        \<lparr>opt_lastModified = Some 0, opt_type = Some ''text/html''\<rparr>]"

text \<open>
  \<open>insertScriptTag\<close> appends a new \<open>script\<close> element to the body, which ends the
  document: the element comes last in document order.
\<close>

definition insertScriptTag :: "HtmlAsset \<Rightarrow> string \<Rightarrow> HtmlAsset" where
  "insertScriptTag h path =
     h\<lparr>html_doc := html_doc h @ [\<lparr>tagName = ''SCRIPT'', attributes = [(''src'', path)]\<rparr>]\<rparr>"

record GenerateAssetsOptions =
  watchPaths :: bool
  insertLivereloadScript :: bool
  livereloadPort :: "number option"
  mainAs404 :: bool
  publicUrl :: string

text \<open>
  The first loop of the generator: the artifacts of the assets, in order. The result is
  the document after the rewrites, the files yielded, and the error that stopped the
  loop, if one did. The files yielded before an error have reached the consumer.
\<close>

fun produce_assets ::
  "env \<Rightarrow> CreateFileObjectParams \<Rightarrow> asset list \<Rightarrow> document \<Rightarrow> document \<times> File list \<times> error option" where
  "produce_assets env params [] doc = (doc, [], None)"
| "produce_assets env params (a # rest) doc =
     (case createFileObject env params a doc of
        Inl e \<Rightarrow> (doc, [], Some e)
      | Inr (doc', files) \<Rightarrow>
          (case produce_assets env params rest doc' of
             (d, yielded, r) \<Rightarrow> (d, files @ yielded, r)))"

text \<open>
  The generator of \<open>generateAssets\<close>, run to its end: the files it yields, in order, and
  the error that ended it, if any. The calls of the logger and of the \<open>onBuild\<close> hook
  yield nothing and are left out.
\<close>

definition generator ::
  "env \<Rightarrow> HtmlAsset \<Rightarrow> asset list \<Rightarrow> CreateFileObjectParams \<Rightarrow> GenerateAssetsOptions
     \<Rightarrow> File list \<times> error option" where
  "generator env htmlAsset assets params opts =
     (case produce_assets env params assets (html_doc htmlAsset) of
        (doc, yielded, Some e) \<Rightarrow> (yielded, Some e)
      | (doc, yielded, None) \<Rightarrow>
          (let files = HtmlAsset_createFileObject env (htmlAsset\<lparr>html_doc := doc\<rparr>)
           in if mainAs404 opts
              then (case files of
                      [] \<Rightarrow> (yielded @ files, Some TypeError)
                    | f # _ \<Rightarrow>
                        (yielded @ files
                           @ [new_File env [ArrayBuffer (file_bytes f)] ''404'' (spread_File f)],
                         None))
              else (yielded @ files, None)))"

definition generateAssets ::
  "env \<Rightarrow> string \<Rightarrow> GenerateAssetsOptions \<Rightarrow> error + (File list \<times> error option) \<times> string list" where
  "generateAssets env path opts =
     (case HtmlAsset_create env path of
        Inl e \<Rightarrow> Inl e
      | Inr htmlAsset \<Rightarrow>
          (let params = \<lparr>pageName = html_pageName htmlAsset, base = html_base htmlAsset,
                         pathPrefix = (if publicUrl opts = [] then ''.'' else publicUrl opts)\<rparr>;
               assets = extractReferencedAssets (html_doc htmlAsset);
               htmlAsset' =
                 (if insertLivereloadScript opts
                  then insertScriptTag htmlAsset
                         (''http://localhost:'' @ template (map_option (Number_toString env) (livereloadPort opts))
                            @ ''/livereload.js'')
                  else htmlAsset);
               gen = generator env htmlAsset' assets params opts
           in if watchPaths opts
              then (case collect_paths (\<lambda>a. getWatchPaths env a (html_base htmlAsset)) assets of
                      Inl e \<Rightarrow> Inl e
                    | Inr paths \<Rightarrow> Inr (gen, path # paths))
              else Inr (gen, [path])))"

section \<open>An environment for concrete runs\<close>

text \<open>
  A small environment on which the definitions can be evaluated: a directory \<open>site\<close>
  with a few files, path functions that join with a slash, a parser that knows the one
  page of the site, a serializer that prints the tags, a hex encoding of the digest, and
  stand-ins for the hash primitive, the bundler and the preprocessor. Its regular
  expression engine is only asked about the pattern \<open>c++\<close>, which does not compile
  (nothing to repeat), and no run prints a number. The clock stands at a moment in 2023.
\<close>

definition hex_digit :: "nat \<Rightarrow> char" where
  "hex_digit n = (if n < 10 then char_of (48 + n) else char_of (87 + n))"

definition hex :: "bytes \<Rightarrow> string" where
  "hex bs = concat (map (\<lambda>b. [hex_digit (unat b div 16), hex_digit (unat b mod 16)]) bs)"

definition render :: "element \<Rightarrow> string" where
  "render e =
     ''<'' @ map to_lower (tagName e)
       @ concat (map (\<lambda>(k, v). '' '' @ k @ ''='' @ v) (attributes e)) @ ''>''"

definition site_html :: string where
  "site_html = ''<script src=main.ts></script><link rel=stylesheet href=style.css><img src=a.png>''"

definition site_doc :: document where
  "site_doc =
     [\<lparr>tagName = ''SCRIPT'', attributes = [(''src'', ''main.ts'')]\<rparr>,
      \<lparr>tagName = ''LINK'', attributes = [(''rel'', ''stylesheet''), (''href'', ''style.css'')]\<rparr>,
      \<lparr>tagName = ''IMG'', attributes = [(''src'', ''a.png'')]\<rparr>]"

definition site_files :: "(string \<times> bytes) list" where
  "site_files =
     [(''site/index.html'', encode site_html),
      (''site/a.png'', [1, 2, 3]),
      (''site/2x'', [4, 5]),
      (''site/logo'', [6]),
      (''site/c++'', [13]),
      (''site/style.css'', [7, 8]),
      (''site/theme.scss'', [9, 10, 11]),
      (''site/main.ts'', [12])]"

definition site_env :: env where
  "site_env =
     \<lparr>readFile = (\<lambda>p. case map_of site_files p of
                         None \<Rightarrow> Inl (External (''NotFound: '' @ p))
                       | Some b \<Rightarrow> Inr b),
      decode = map (\<lambda>b. char_of (unat b)),
      subtle_digest = (\<lambda>alg bs. [of_nat (length bs)]),
      toHashString = hex,
      join = (\<lambda>a b. a @ ''/'' @ b),
      posixPathJoin = (\<lambda>a b. if a = ''.'' then b else a @ ''/'' @ b),
      basename = (\<lambda>p. last (str_split CHR ''/'' p)),
      dirname = (\<lambda>p. join_with ''/'' (butlast (str_split CHR ''/'' p))),
      parseFromString = (\<lambda>html. if html = site_html then site_doc else []),
      outerHTML = (\<lambda>doc. ''<html>'' @ concat (map render doc) @ ''</html>''),
      bundleByEsbuild = (\<lambda>p. Inr (JsString ''bundle'')),
      compileSass = (\<lambda>scss. Inr (JsString ''css'')),
      RegExp_search = (\<lambda>pat text. Inl (SyntaxError pat)),
      deno_info = (\<lambda>p. Inr []),
      fromFileUrl = drop 7,
      Number_toString = (\<lambda>n. ''0''),
      now = 1700000000000\<rparr>"

text \<open>
  The parameters of the cycle of the page, and the options of a cycle with the fallback
  switched on.
\<close>

definition index_params :: CreateFileObjectParams where
  "index_params = \<lparr>pageName = ''index'', base = ''site'', pathPrefix = ''.''\<rparr>"

definition fallback_options :: GenerateAssetsOptions where
  "fallback_options =
     \<lparr>watchPaths = False, insertLivereloadScript = False, livereloadPort = None,
      mainAs404 = True, publicUrl = []\<rparr>"

text \<open>
  Documents of one or two elements: a \<open>source\<close> whose second source is named like a
  descriptor, two images without extension, an image with a remote \<open>src\<close> and a local
  \<open>srcset\<close>, an image with only a \<open>srcset\<close>, a link to a preprocessed stylesheet, and a
  \<open>source\<close> followed by an \<open>img\<close>, as inside a \<open>picture\<close>.
\<close>

definition picture_source :: document where
  "picture_source = [\<lparr>tagName = ''SOURCE'', attributes = [(''srcset'', ''a.png 2x, 2x 3x'')]\<rparr>]"



definition cdn_image :: document where
  "cdn_image =
     [\<lparr>tagName = ''IMG'',
       attributes = [(''src'', ''http://cdn/a.png''), (''srcset'', ''a.png 2x'')]\<rparr>]"

definition srcset_image :: document where
  "srcset_image = [\<lparr>tagName = ''IMG'', attributes = [(''srcset'', ''a.png 2x'')]\<rparr>]"

definition theme_link :: document where
  "theme_link =
     [\<lparr>tagName = ''LINK'', attributes = [(''rel'', ''stylesheet''), (''href'', ''theme.scss'')]\<rparr>]"

definition picture_doc :: document where
  "picture_doc =
     [\<lparr>tagName = ''SOURCE'', attributes = [(''srcset'', ''a.webp'')]\<rparr>,
      \<lparr>tagName = ''IMG'', attributes = [(''src'', ''a.png'')]\<rparr>]"

section \<open>Notions used in the properties\<close>

text \<open>
  Two builds read the same contents when they see the same files under the same paths,
  get the same bundles, and use the same hash.
\<close>

definition same_contents :: "env \<Rightarrow> env \<Rightarrow> bool" where
  "same_contents env env' \<longleftrightarrow>
     readFile env' = readFile env \<and> join env' = join env
     \<and> bundleByEsbuild env' = bundleByEsbuild env
     \<and> subtle_digest env' = subtle_digest env \<and> toHashString env' = toHashString env"

text \<open>
  The size and descriptor tokens of a \<open>srcset\<close> value: for every entry, split as
  \<open>ImageAsset.create\<close> splits it, the tokens after the first.
\<close>

definition srcset_descriptors :: "string \<Rightarrow> string list list" where
  "srcset_descriptors srcset =
     map (\<lambda>entry. tl (str_split CHR '' '' entry))
       (map trim (filter (\<lambda>s. s \<noteq> []) (str_split CHR '','' srcset)))"

text \<open>
  The element an asset holds, the class of an asset, and document order: the positions
  of the elements of a list of assets increase. \<open>from_tag\<close> tells the tag of the element
  an asset holds.
\<close>

fun asset_element :: "asset \<Rightarrow> nat" where
  "asset_element (CssAsset href el) = el"
| "asset_element (ScssAsset href el) = el"
| "asset_element (ScriptAsset src el) = el"
| "asset_element (ImageAsset sources el) = el"

fun is_script :: "asset \<Rightarrow> bool" where
  "is_script (ScriptAsset src el) = True"
| "is_script a = False"

fun is_stylesheet :: "asset \<Rightarrow> bool" where
  "is_stylesheet (CssAsset href el) = True"
| "is_stylesheet (ScssAsset href el) = True"
| "is_stylesheet a = False"

fun is_image :: "asset \<Rightarrow> bool" where
  "is_image (ImageAsset sources el) = True"
| "is_image a = False"

definition in_document_order :: "asset list \<Rightarrow> bool" where
  "in_document_order as = sorted_wrt (<) (map asset_element as)"

definition from_tag :: "document \<Rightarrow> string \<Rightarrow> asset \<Rightarrow> bool" where
  "from_tag doc tag a = (tagName (doc ! asset_element a) = tag)"

text \<open>
  The files \<open>fs\<close> are what \<open>createFileObject\<close> returns for the asset, on some state of
  the document.
\<close>

definition artifacts_of :: "env \<Rightarrow> CreateFileObjectParams \<Rightarrow> asset \<Rightarrow> File list \<Rightarrow> bool" where
  "artifacts_of env params a fs \<longleftrightarrow> (\<exists>d d'. createFileObject env params a d = Inr (d', fs))"

text \<open>The bytes of an ASCII text.\<close>

definition ascii :: "string \<Rightarrow> bytes" where
  "ascii s = map (\<lambda>c. of_nat (of_char c)) s"

section \<open>Strings and attributes\<close>

lemma startsWith_iff: "startsWith s p \<longleftrightarrow> (\<exists>t. s = p @ t)"
proof
  assume "startsWith s p"
  then have "take (length p) s = p" by (simp add: startsWith_def)
  then have "s = p @ drop (length p) s" by (metis append_take_drop_id)
  then show "\<exists>t. s = p @ t" ..
next
  assume "\<exists>t. s = p @ t"
  then show "startsWith s p" by (auto simp: startsWith_def)
qed

lemma first_occurrence_SomeD:
  "first_occurrence s sub = Some (pre, post) \<Longrightarrow>
     s = pre @ sub @ post \<and> (\<forall>pre' post'. s = pre' @ sub @ post' \<longrightarrow> length pre \<le> length pre')"
proof (induction s arbitrary: pre)
  case Nil
  then show ?case by (auto split: if_splits)
next
  case (Cons c cs)
  show ?case
  proof (cases "startsWith (c # cs) sub")
    case True
    with Cons.prems have "pre = []" "post = drop (length sub) (c # cs)" by auto
    moreover from True have "c # cs = sub @ drop (length sub) (c # cs)"
      by (metis startsWith_def append_take_drop_id)
    ultimately show ?thesis by simp
  next
    case False
    with Cons.prems obtain pre0 where fo: "first_occurrence cs sub = Some (pre0, post)"
      and pre: "pre = c # pre0"
      by (auto split: option.splits)
    from Cons.IH [OF fo] have dec: "cs = pre0 @ sub @ post"
      and least: "\<And>pre' post'. cs = pre' @ sub @ post' \<Longrightarrow> length pre0 \<le> length pre'"
      by auto
    have "length pre \<le> length pre'" if eq: "c # cs = pre' @ sub @ post'" for pre' post'
    proof (cases pre')
      case Nil
      with eq have "startsWith (c # cs) sub" by (auto simp: startsWith_iff)
      with False show ?thesis by simp
    next
      case (Cons d pre'')
      with eq have "cs = pre'' @ sub @ post'" by simp
      from least [OF this] Cons pre show ?thesis by simp
    qed
    with dec pre show ?thesis by simp
  qed
qed

lemma first_occurrence_exists:
  "\<exists>r. first_occurrence (pre @ sub @ post) sub = Some r"
proof (induction pre)
  case Nil
  show ?case
  proof (cases "sub @ post")
    case Nil
    then show ?thesis by simp
  next
    case (Cons c cs)
    then have "startsWith (c # cs) sub" by (metis startsWith_iff)
    with Cons show ?thesis by simp
  qed
next
  case (Cons c pre)
  then show ?case by (auto split: option.splits)
qed

lemma first_occurrence_SomeI:
  assumes dec: "s = pre @ sub @ post"
    and least: "\<forall>pre' post'. s = pre' @ sub @ post' \<longrightarrow> length pre \<le> length pre'"
  shows "first_occurrence s sub = Some (pre, post)"
proof -
  from first_occurrence_exists [of pre sub post] dec
  obtain p q where fo: "first_occurrence s sub = Some (p, q)" by auto
  from first_occurrence_SomeD [OF fo] have dec': "s = p @ sub @ q"
    and least': "\<forall>pre' post'. s = pre' @ sub @ post' \<longrightarrow> length p \<le> length pre'"
    by auto
  from dec least' have "length p \<le> length pre" by blast
  moreover from dec' least have "length pre \<le> length p" by blast
  ultimately have len: "length p = length pre" by simp
  from dec dec' have "p @ (sub @ q) = pre @ (sub @ post)" by simp
  with len have "p = pre" "sub @ q = sub @ post" by auto
  with fo show ?thesis by simp
qed

lemma str_includes_iff: "str_includes s sub \<longleftrightarrow> first_occurrence s sub \<noteq> None"
  by (induction s) (auto split: option.splits)

lemma GetSubstitution_plain:
  "CHR ''$'' \<notin> set repl \<Longrightarrow> GetSubstitution m p q repl = repl"
  by (induction m p q repl rule: GetSubstitution.induct) auto

lemma str_replace_first:
  assumes "s = pre @ sub @ post"
    and "\<forall>pre' post'. s = pre' @ sub @ post' \<longrightarrow> length pre \<le> length pre'"
    and "CHR ''$'' \<notin> set repl"
  shows "str_includes s sub" and "str_replace s sub repl = pre @ repl @ post"
  using first_occurrence_SomeI [OF assms(1,2)] assms(3)
  by (simp_all add: str_includes_iff str_replace_def GetSubstitution_plain)

lemma str_replace_absent: "\<not> str_includes s sub \<Longrightarrow> str_replace s sub repl = s"
  by (auto simp: str_includes_iff str_replace_def split: option.splits)

lemma strip_html_append:
  assumes "endsWith f ''.html''"
  shows "strip_html f @ ''.html'' = f"
proof -
  from assms have d: "drop (length f - 5) f = ''.html''"
    by (simp add: endsWith_def eval_nat_numeral)
  have "take (length f - 5) f @ drop (length f - 5) f = f"
    by (rule append_take_drop_id)
  with d have "take (length f - 5) f @ ''.html'' = f"
    by simp
  with assms show ?thesis
    by (simp add: strip_html_def)
qed





lemma normalizeType_text_css: "normalizeType ''text/css'' = ''text/css''"
  by code_simp

lemma normalizeType_text_html: "normalizeType ''text/html'' = ''text/html''"
  by code_simp

lemma upper_tags:
  "map to_upper ''script'' = ''SCRIPT''" "map to_upper ''link'' = ''LINK''"
  "map to_upper ''img'' = ''IMG''" "map to_upper ''source'' = ''SOURCE''"
  by code_simp+

lemma docType_ascii: "docType = ascii ''<!DOCTYPE html>''"
  by code_simp

lemma take_docType: "take 15 (docType @ rest) = ascii ''<!DOCTYPE html>''"
  by (simp add: docType_ascii ascii_def)

lemma map_of_update_attribute:
  "map_of (update_attribute n v as) = (map_of as)(n \<mapsto> v)"
  by (induction as) auto

lemma length_setAttribute: "length (setAttribute doc el n v) = length doc"
  by (simp add: setAttribute_def)

lemma getAttribute_setAttribute:
  "getAttribute (setAttribute doc el n v) el' n' =
     (if el' = el \<and> n' = n \<and> el < length doc then Some v else getAttribute doc el' n')"
  by (auto simp: getAttribute_def setAttribute_def map_of_update_attribute nth_list_update)

lemma getAttribute_SomeD: "getAttribute doc el n = Some v \<Longrightarrow> el < length doc"
  by (simp add: getAttribute_def split: if_splits)

section \<open>Runs on the sample site\<close>

text \<open>Single steps of the program on the sample site, evaluated.\<close>

lemma site_basename: "basename site_env ''site/index.html'' = ''index.html''"
  by (simp add: site_env_def)

lemma index_prefix: "pathPrefix index_params = ''.''"
  by (simp add: index_params_def)

lemma site_posix_join: "posixPathJoin site_env ''.'' ''index.05.png'' = ''index.05.png''"
  by (simp add: site_env_def)

lemma no_dollar: "CHR ''$'' \<notin> set ''index.05.png''"
  by simp

lemma fallback_on: "mainAs404 fallback_options"
  by (simp add: fallback_options_def)

lemma picture_create:
  "ImageAsset_create picture_source 0 = Some (ImageAsset [''a.png'', ''2x''] 0)"
  by code_simp

lemma picture_srcset: "getAttribute picture_source 0 ''srcset'' = Some ''a.png 2x, 2x 3x''"
  by code_simp

lemma picture_step_png:
  "ImageAsset_step site_env index_params 0 ''a.png'' picture_source =
     Inr ([\<lparr>tagName = ''SOURCE'', attributes = [(''srcset'', ''index.05.png 2x, 2x 3x'')]\<rparr>],
          \<lparr>file_name = ''index.05.png'', file_bytes = [1, 2, 3], lastModified = 0,
            file_type = ''image/png''\<rparr>)"
  by code_simp

lemma picture_step_2x:
  "ImageAsset_step site_env index_params 0 ''2x''
     [\<lparr>tagName = ''SOURCE'', attributes = [(''srcset'', ''index.05.png 2x, 2x 3x'')]\<rparr>]
   = Inr ([\<lparr>tagName = ''SOURCE'',
            attributes = [(''srcset'', ''index.05.png index.03.undefined, 2x 3x'')]\<rparr>],
           \<lparr>file_name = ''index.03.undefined'', file_bytes = [4, 5], lastModified = 0,
             file_type = ''image/undefined''\<rparr>)"
  by code_simp

lemma picture_descriptors: "srcset_descriptors ''a.png 2x, 2x 3x'' = [[''2x''], [''3x'']]"
  by code_simp

lemma picture_descriptors_after:
  "srcset_descriptors ''index.05.png index.03.undefined, 2x 3x''
     = [[''index.03.undefined''], [''3x'']]"
  by code_simp









lemma style_run:
  "createFileObject site_env index_params (CssAsset ''style.css'' 1) site_doc =
     Inr ([\<lparr>tagName = ''SCRIPT'', attributes = [(''src'', ''main.ts'')]\<rparr>,
           \<lparr>tagName = ''LINK'',
             attributes = [(''rel'', ''stylesheet''), (''href'', ''index.03.css'')]\<rparr>,
           \<lparr>tagName = ''IMG'', attributes = [(''src'', ''a.png'')]\<rparr>],
          [\<lparr>file_name = ''index.03.css'', file_bytes = [7, 8], lastModified = 0,
             file_type = ''text/css''\<rparr>])"
  by code_simp

lemma cdn_create: "ImageAsset_create cdn_image 0 = Some (ImageAsset [''a.png''] 0)"
  by code_simp

lemma cdn_src: "getAttribute cdn_image 0 ''src'' = Some ''http://cdn/a.png''"
  by code_simp

lemma cdn_step:
  "ImageAsset_step site_env index_params 0 ''a.png'' cdn_image =
     Inr ([\<lparr>tagName = ''IMG'',
            attributes = [(''src'', ''index.05.png''), (''srcset'', ''index.05.png 2x'')]\<rparr>],
          \<lparr>file_name = ''index.05.png'', file_bytes = [1, 2, 3], lastModified = 0,
            file_type = ''image/png''\<rparr>)"
  by code_simp

lemma srcset_image_create: "ImageAsset_create srcset_image 0 = None"
  by code_simp

lemma srcset_image_sources:
  "collect_sources (getAttribute srcset_image 0 ''src'') (getAttribute srcset_image 0 ''srcset'')
     = [''a.png'']"
  by code_simp

lemma theme_create: "CssAsset_create theme_link 0 = Some (ScssAsset ''theme.scss'' 0)"
  by code_simp

lemma theme_href: "getAttribute theme_link 0 ''href'' = Some ''theme.scss''"
  by code_simp

lemma theme_ext: "endsWith ''theme.scss'' ''.scss''"
  by code_simp

lemma theme_read:
  "readFile site_env (join site_env (base index_params) ''theme.scss'') = Inr [9, 10, 11]"
  by code_simp

lemma theme_compile: "compileSass site_env (decode site_env [9, 10, 11]) = Inr (JsString ''css'')"
  by code_simp

lemma theme_md5: "md5 site_env (Uint8Array [9, 10, 11]) = ''07''"
  by code_simp

lemma css_bytes: "part_bytes (JsString ''css'') = [99, 115, 115]"
  by code_simp

lemma picture_doc_assets:
  "extractReferencedAssets picture_doc = [ImageAsset [''a.png''] 1, ImageAsset [''a.webp''] 0]"
  by code_simp

lemma site_cycle:
  "(case generateAssets site_env ''site/index.html'' fallback_options of
      Inl e \<Rightarrow> False
    | Inr ((ys, r), paths) \<Rightarrow>
        r = None
        \<and> map file_name ys = [''index.06.js'', ''index.03.css'', ''index.05.png'', ''index.html'', ''404''])"
  by code_simp

section \<open>Artifacts of the assets\<close>

lemma ImageAsset_step_InrD:
  assumes "ImageAsset_step env params el src doc = Inr (doc', f)"
  obtains data matched where
    "readFile env (join env (base params) src) = Inr data"
    "(case getAttribute doc el ''src'' of None \<Rightarrow> Inr False | Some s \<Rightarrow> String_match env s src)
       = Inr matched"
    "f = new_File env [Uint8Array data]
           (pageName params @ ''.'' @ md5 env (Uint8Array data) @ ''.'' @ template (match_extension src))
           \<lparr>opt_lastModified = Some 0, opt_type = Some (''image/'' @ template (match_extension src))\<rparr>"
    "doc' =
       (let dest = pageName params @ ''.'' @ md5 env (Uint8Array data) @ ''.''
                     @ template (match_extension src);
            doc1 = (if matched
                    then setAttribute doc el ''src'' (posixPathJoin env (pathPrefix params) dest)
                    else doc)
        in case getAttribute doc1 el ''srcset'' of
             None \<Rightarrow> doc1
           | Some srcset \<Rightarrow>
               if str_includes srcset src
               then setAttribute doc1 el ''srcset''
                      (str_replace srcset src (posixPathJoin env (pathPrefix params) dest))
               else doc1)"
  using assms unfolding ImageAsset_step_def Let_def
  by (auto split: sum.splits)

lemma ImageAsset_step_file:
  assumes "ImageAsset_step env params el src doc = Inr (doc', f)"
  shows "\<exists>data. readFile env (join env (base params) src) = Inr data
           \<and> file_name f = pageName params @ ''.'' @ md5 env (Uint8Array data) @ ''.''
                              @ template (match_extension src)
           \<and> file_bytes f = data \<and> lastModified f = 0
           \<and> file_type f = normalizeType (''image/'' @ template (match_extension src))"
  using assms by (rule ImageAsset_step_InrD) (auto simp: new_File_def part_bytes_def)

lemma ImageAsset_loop_files:
  "ImageAsset_loop env params el srcs doc files = Inr (doc', files') \<Longrightarrow>
     \<exists>fs. files' = files @ fs
        \<and> list_all2 (\<lambda>src f. \<exists>d d'. ImageAsset_step env params el src d = Inr (d', f)) srcs fs"
proof (induction srcs arbitrary: doc files)
  case Nil
  then show ?case by simp
next
  case (Cons src rest)
  from Cons.prems obtain d1 f where step: "ImageAsset_step env params el src doc = Inr (d1, f)"
    and loop: "ImageAsset_loop env params el rest d1 (files @ [f]) = Inr (doc', files')"
    by (auto split: sum.splits)
  from Cons.IH [OF loop] obtain fs where "files' = (files @ [f]) @ fs"
    and "list_all2 (\<lambda>src f. \<exists>d d'. ImageAsset_step env params el src d = Inr (d', f)) rest fs"
    by blast
  with step have "files' = files @ (f # fs)"
    and "list_all2 (\<lambda>src f. \<exists>d d'. ImageAsset_step env params el src d = Inr (d', f))
           (src # rest) (f # fs)"
    by auto
  then show ?case by blast
qed

lemma ImageAsset_files:
  assumes "ImageAsset_createFileObject env params sources el doc = Inr (doc', files)"
  shows "list_all2 (\<lambda>src f. \<exists>data. readFile env (join env (base params) src) = Inr data
             \<and> file_name f = pageName params @ ''.'' @ md5 env (Uint8Array data) @ ''.''
                                @ template (match_extension src)
             \<and> file_bytes f = data \<and> lastModified f = 0) sources files"
proof -
  from assms ImageAsset_loop_files [of env params el sources doc "[]" doc' files]
  have "list_all2 (\<lambda>src f. \<exists>d d'. ImageAsset_step env params el src d = Inr (d', f)) sources files"
    by (simp add: ImageAsset_createFileObject_def)
  then show ?thesis
    by (rule list_all2_mono) (use ImageAsset_step_file in blast)
qed

lemma CssAsset_files:
  assumes "CssAsset_createFileObject env params href el doc = Inr (doc', files)"
  shows "\<exists>data. readFile env (join env (base params) href) = Inr data
           \<and> map file_bytes files = [data]
           \<and> map file_name files = [pageName params @ ''.'' @ md5 env (Uint8Array data) @ ''.css'']
           \<and> map lastModified files = [0]"
  using assms
  by (auto simp: CssAsset_createFileObject_def Let_def new_File_def part_bytes_def
      split: sum.splits)

lemma ScssAsset_files:
  assumes "ScssAsset_createFileObject env params href el doc = Inr (doc', files)"
  shows "\<exists>data. readFile env (join env (base params) href) = Inr data
           \<and> map file_name files = [pageName params @ ''.'' @ md5 env (Uint8Array data) @ ''.css'']
           \<and> map lastModified files = [0]"
  using assms
  by (auto simp: ScssAsset_createFileObject_def Let_def new_File_def part_bytes_def
      split: sum.splits)

lemma ScriptAsset_files:
  assumes "ScriptAsset_createFileObject env params src el doc = Inr (doc', files)"
  shows "\<exists>data. bundleByEsbuild env (join env (base params) src) = Inr data
           \<and> map file_bytes files = [part_bytes data]
           \<and> map file_name files = [pageName params @ ''.'' @ md5 env data @ ''.js'']
           \<and> map lastModified files = [0]"
  using assms
  by (auto simp: ScriptAsset_createFileObject_def Let_def new_File_def
      split: sum.splits)

lemma ScssAsset_run:
  assumes "readFile env (join env (base params) href) = Inr scss"
    and "compileSass env (decode env scss) = Inr css"
  shows "ScssAsset_createFileObject env params href link doc =
     Inr (setAttribute doc link ''href''
            (posixPathJoin env (pathPrefix params)
               (pageName params @ ''.'' @ md5 env (Uint8Array scss) @ ''.css'')),
          [\<lparr>file_name = pageName params @ ''.'' @ md5 env (Uint8Array scss) @ ''.css'',
            file_bytes = part_bytes css, lastModified = 0, file_type = ''text/css''\<rparr>])"
  using assms
  by (simp add: ScssAsset_createFileObject_def Let_def new_File_def normalizeType_text_css)

lemma image_names_determined:
  assumes "list_all2 (\<lambda>src f. \<exists>data. R src = Inr data \<and> file_name f = N src data \<and> Q src f data) srcs fs"
  shows "map file_name fs = map (\<lambda>src. N src (projr (R src))) srcs"
  using assms by (induction rule: list_all2_induct) auto

lemma same_contents_md5: "same_contents env env' \<Longrightarrow> md5 env' = md5 env"
  by (rule ext) (simp add: same_contents_def md5_def)

lemma names_deterministic:
  assumes one: "createFileObject env params a doc = Inr (doc', files)"
    and two: "createFileObject env' params' a doc2 = Inr (doc2', files2)"
    and same: "same_contents env env'"
    and page: "pageName params' = pageName params" "base params' = base params"
  shows "map file_name files2 = map file_name files"
proof -
  from same have eqs: "md5 env' = md5 env" "readFile env' = readFile env" "join env' = join env"
    "bundleByEsbuild env' = bundleByEsbuild env"
    by (simp_all add: same_contents_md5) (simp_all add: same_contents_def)
  show ?thesis
proof (cases a)
  case (CssAsset href el)
  with one two CssAsset_files [of env params href el doc doc' files]
    CssAsset_files [of env' params' href el doc2 doc2' files2]
  show ?thesis unfolding eqs page by auto
next
  case (ScssAsset href el)
  with one two ScssAsset_files [of env params href el doc doc' files]
    ScssAsset_files [of env' params' href el doc2 doc2' files2]
  show ?thesis unfolding eqs page by auto
next
  case (ScriptAsset src el)
  with one two ScriptAsset_files [of env params src el doc doc' files]
    ScriptAsset_files [of env' params' src el doc2 doc2' files2]
  show ?thesis unfolding eqs page by auto
next
  case (ImageAsset sources el)
  with one have "ImageAsset_createFileObject env params sources el doc = Inr (doc', files)"
    by simp
  from image_names_determined [OF ImageAsset_files [OF this]]
  have n1: "map file_name files =
      map (\<lambda>src. pageName params @ ''.''
             @ md5 env (Uint8Array (projr (readFile env (join env (base params) src)))) @ ''.''
             @ template (match_extension src)) sources" .
  from ImageAsset two
  have "ImageAsset_createFileObject env' params' sources el doc2 = Inr (doc2', files2)"
    by simp
  from image_names_determined [OF ImageAsset_files [OF this]]
  have n2: "map file_name files2 =
      map (\<lambda>src. pageName params' @ ''.''
             @ md5 env' (Uint8Array (projr (readFile env' (join env' (base params') src)))) @ ''.''
             @ template (match_extension src)) sources" .
  show ?thesis
    unfolding n1 n2 eqs page ..
qed
qed

text \<open>
  The names of the artifacts. When \<open>createFileObject\<close> succeeds, a stylesheet gives one
  file whose bytes are the bytes read and whose name is the page name, the \<open>md5\<close> of the
  data read and \<open>css\<close>, joined by dots; a script gives one file whose bytes are the bundle
  and whose name is the page name, the \<open>md5\<close> of the bundle and \<open>js\<close>; an image gives one
  file for every source, in order, whose bytes are the bytes read and whose name is the
  page name, the \<open>md5\<close> of the data read and the extension of the source. A second build
  of the same asset for the same page, reading the same contents, gives the same file
  names, whatever the state of the document, the prefix and the clock.
\<close>

lemma content_addressed_names:
  assumes "createFileObject env params a doc = Inr (doc', files)"
  shows "(\<forall>href el. a = CssAsset href el \<longrightarrow>
            (\<exists>data. readFile env (join env (base params) href) = Inr data
               \<and> map file_bytes files = [data]
               \<and> map file_name files
                   = [pageName params @ ''.'' @ md5 env (Uint8Array data) @ ''.css'']))
       \<and> (\<forall>src el. a = ScriptAsset src el \<longrightarrow>
            (\<exists>data. bundleByEsbuild env (join env (base params) src) = Inr data
               \<and> map file_bytes files = [part_bytes data]
               \<and> map file_name files = [pageName params @ ''.'' @ md5 env data @ ''.js'']))
       \<and> (\<forall>sources el. a = ImageAsset sources el \<longrightarrow>
            list_all2 (\<lambda>src f. \<exists>data. readFile env (join env (base params) src) = Inr data
               \<and> file_bytes f = data
               \<and> file_name f = pageName params @ ''.'' @ md5 env (Uint8Array data) @ ''.''
                                  @ template (match_extension src)) sources files)
       \<and> (\<forall>env' params' doc2 doc2' files2.
            same_contents env env' \<and> pageName params' = pageName params
            \<and> base params' = base params
            \<and> createFileObject env' params' a doc2 = Inr (doc2', files2)
            \<longrightarrow> map file_name files2 = map file_name files)"
proof (intro conjI allI impI)
  fix href el assume "a = CssAsset href el"
  with assms CssAsset_files [of env params href el doc doc' files]
  show "\<exists>data. readFile env (join env (base params) href) = Inr data
               \<and> map file_bytes files = [data]
               \<and> map file_name files
                   = [pageName params @ ''.'' @ md5 env (Uint8Array data) @ ''.css'']"
    by auto
next
  fix src el assume "a = ScriptAsset src el"
  with assms ScriptAsset_files [of env params src el doc doc' files]
  show "\<exists>data. bundleByEsbuild env (join env (base params) src) = Inr data
               \<and> map file_bytes files = [part_bytes data]
               \<and> map file_name files = [pageName params @ ''.'' @ md5 env data @ ''.js'']"
    by auto
next
  fix sources el assume "a = ImageAsset sources el"
  with assms have "ImageAsset_createFileObject env params sources el doc = Inr (doc', files)"
    by simp
  from ImageAsset_files [OF this]
  show "list_all2 (\<lambda>src f. \<exists>data. readFile env (join env (base params) src) = Inr data
               \<and> file_bytes f = data
               \<and> file_name f = pageName params @ ''.'' @ md5 env (Uint8Array data) @ ''.''
                                  @ template (match_extension src)) sources files"
    by (rule list_all2_mono) blast
next
  fix env' params' doc2 doc2' files2
  assume "same_contents env env' \<and> pageName params' = pageName params
            \<and> base params' = base params
            \<and> createFileObject env' params' a doc2 = Inr (doc2', files2)"
  with assms show "map file_name files2 = map file_name files"
    by (auto intro: names_deterministic)
qed

text \<open>
  What \<open>md5\<close> hashes. The data read from a file is a \<open>Uint8Array\<close>, which is not an
  \<open>ArrayBuffer\<close>: it takes the branch of \<open>md5\<close> meant for strings, and the hash primitive
  receives the text of its decimal form.
\<close>

lemma md5_Uint8Array:
  "md5 env (Uint8Array data) =
     toHashString env (subtle_digest env ''MD5'' (encode (Uint8Array_toString data)))"
  by (simp add: md5_def)

lemma md5_ArrayBuffer:
  "md5 env (ArrayBuffer data) = toHashString env (subtle_digest env ''MD5'' data)"
  by (simp add: md5_def)

lemma style_text: "encode (Uint8Array_toString [7, 8]) = ascii ''7,8''"
  by code_simp

lemma style_text_bytes: "ascii ''7,8'' = [55, 44, 56]"
  by code_simp

lemma style_hash_of_bytes: "toHashString site_env (subtle_digest site_env ''MD5'' [7, 8]) = ''02''"
  by code_simp

lemma style_hash_of_text:
  "toHashString site_env (subtle_digest site_env ''MD5'' (ascii ''7,8'')) = ''03''"
  by code_simp

text \<open>
  C1. The stylesheet of the sample site holds the two bytes 7 and 8. Whatever the hash
  primitive, the digest in the name of its artifact is the hash of the three bytes of the
  text \<open>7,8\<close>, not the hash of the two bytes of the artifact: with the hash of the sample
  environment the artifact is named \<open>index.03.css\<close>, and the hash of its bytes is \<open>02\<close>.
\<close>

theorem C1_digest_of_decimal_text:
  "md5 env (Uint8Array [7, 8]) = toHashString env (subtle_digest env ''MD5'' [55, 44, 56])
   \<and> createFileObject site_env index_params (CssAsset ''style.css'' 1) site_doc =
     Inr ([\<lparr>tagName = ''SCRIPT'', attributes = [(''src'', ''main.ts'')]\<rparr>,
           \<lparr>tagName = ''LINK'',
             attributes = [(''rel'', ''stylesheet''), (''href'', ''index.03.css'')]\<rparr>,
           \<lparr>tagName = ''IMG'', attributes = [(''src'', ''a.png'')]\<rparr>],
          [\<lparr>file_name = ''index.03.css'', file_bytes = [7, 8], lastModified = 0,
             file_type = ''text/css''\<rparr>])
   \<and> toHashString site_env (subtle_digest site_env ''MD5'' [7, 8]) = ''02''
   \<and> toHashString site_env (subtle_digest site_env ''MD5'' [55, 44, 56]) = ''03''"
proof (intro conjI)
  show "md5 env (Uint8Array [7, 8]) = toHashString env (subtle_digest env ''MD5'' [55, 44, 56])"
    by (simp only: md5_Uint8Array style_text style_text_bytes)
  show "toHashString site_env (subtle_digest site_env ''MD5'' [55, 44, 56]) = ''03''"
    using style_hash_of_text by (simp only: style_text_bytes)
qed (rule style_run style_hash_of_bytes)+

section \<open>Timestamps\<close>

text \<open>The artifacts of the assets and of the entry document carry the timestamp 0.\<close>

lemma asset_timestamps:
  assumes "createFileObject env params a doc = Inr (doc', files)"
  shows "list_all (\<lambda>f. lastModified f = 0) files"
proof (cases a)
  case (CssAsset href el)
  with assms CssAsset_files [of env params href el doc doc' files]
  have "map lastModified files = [0]" by auto
  then show ?thesis by (cases files) auto
next
  case (ScssAsset href el)
  with assms ScssAsset_files [of env params href el doc doc' files]
  have "map lastModified files = [0]" by auto
  then show ?thesis by (cases files) auto
next
  case (ScriptAsset src el)
  with assms ScriptAsset_files [of env params src el doc doc' files]
  have "map lastModified files = [0]" by auto
  then show ?thesis by (cases files) auto
next
  case (ImageAsset sources el)
  with assms have "ImageAsset_createFileObject env params sources el doc = Inr (doc', files)"
    by simp
  from ImageAsset_files [OF this] show ?thesis
    by (induction rule: list_all2_induct) auto
qed

text \<open>
  The copy of the page under the name \<open>404\<close> is stamped with the clock, and has no media
  type.
\<close>

lemma fallback_file:
  "lastModified (new_File env [ArrayBuffer bs] ''404'' (spread_File f)) = now env"
  "file_type (new_File env [ArrayBuffer bs] ''404'' (spread_File f)) = []"
  by (simp_all add: new_File_def spread_File_def normalizeType_def)

text \<open>
  C2. The cycle of the sample site with the fallback switched on: the artifacts of the
  three assets and the page itself carry the timestamp 0, and the copy named \<open>404\<close>
  carries the time of the clock. Its options are the spread of the page's \<open>File\<close>, which
  has no \<open>lastModified\<close>.
\<close>

theorem C2_fallback_timestamp:
  "(case generateAssets site_env ''site/index.html'' fallback_options of
      Inl e \<Rightarrow> []
    | Inr ((ys, r), paths) \<Rightarrow> map (\<lambda>f. (file_name f, lastModified f)) ys)
   = [(''index.06.js'', 0), (''index.03.css'', 0), (''index.05.png'', 0),
      (''index.html'', 0), (''404'', 1700000000000)]"
  by code_simp

section \<open>The order of the artifacts\<close>

lemma produce_assets_yield:
  "produce_assets env params assets doc = (d, ys, r) \<Longrightarrow>
     \<exists>fss. ys = concat fss
       \<and> list_all2 (artifacts_of env params) (take (length fss) assets) fss
       \<and> (r = None \<longrightarrow> length fss = length assets)
       \<and> (r \<noteq> None \<longrightarrow> length fss < length assets)"
proof (induction assets arbitrary: doc d ys r)
  case Nil
  then show ?case by simp
next
  case (Cons a rest)
  show ?case
  proof (cases "createFileObject env params a doc")
    case (Inl e)
    with Cons.prems have "ys = []" "r = Some e" by simp_all
    then have "ys = concat [] \<and> list_all2 (artifacts_of env params) (take (length []) (a # rest)) []
       \<and> (r = None \<longrightarrow> length [] = length (a # rest))
       \<and> (r \<noteq> None \<longrightarrow> length [] < length (a # rest))"
      by simp
    then show ?thesis by blast
  next
    case (Inr res)
    obtain doc' files where res: "res = (doc', files)" by (cases res)
    obtain d1 ys1 r1 where rest: "produce_assets env params rest doc' = (d1, ys1, r1)"
      by (cases "produce_assets env params rest doc'")
    from Cons.prems Inr res rest have out: "ys = files @ ys1" "r = r1" by simp_all
    from Cons.IH [OF rest] obtain fss where fss: "ys1 = concat fss"
      "list_all2 (artifacts_of env params) (take (length fss) rest) fss"
      "r1 = None \<longrightarrow> length fss = length rest" "r1 \<noteq> None \<longrightarrow> length fss < length rest"
      by blast
    from Inr res have "artifacts_of env params a files"
      unfolding artifacts_of_def by blast
    with fss out have "ys = concat (files # fss)
       \<and> list_all2 (artifacts_of env params) (take (length (files # fss)) (a # rest)) (files # fss)
       \<and> (r = None \<longrightarrow> length (files # fss) = length (a # rest))
       \<and> (r \<noteq> None \<longrightarrow> length (files # fss) < length (a # rest))"
      by simp
    then show ?thesis by blast
  qed
qed

lemma HtmlAsset_file:
  "HtmlAsset_createFileObject env h =
     [\<lparr>file_name = html_filename h,
       file_bytes = docType @ encode (outerHTML env (html_doc h)),
       lastModified = 0, file_type = ''text/html''\<rparr>]"
  by (simp add: HtmlAsset_createFileObject_def new_File_def part_bytes_def
      normalizeType_text_html)

lemma generator_yield:
  assumes "generator env h assets params opts = (ys, r)"
  shows "\<exists>fss. list_all2 (artifacts_of env params) (take (length fss) assets) fss
       \<and> (r = None \<longrightarrow> length fss = length assets
            \<and> (\<exists>html rest. ys = concat fss @ html # rest
                  \<and> file_name html = html_filename h
                  \<and> take 15 (file_bytes html) = ascii ''<!DOCTYPE html>''
                  \<and> (if mainAs404 opts
                      then \<exists>f. rest = [f] \<and> file_name f = ''404''
                             \<and> file_bytes f = file_bytes html
                      else rest = [])))
       \<and> (r \<noteq> None \<longrightarrow> length fss < length assets \<and> ys = concat fss)"
proof -
  obtain d ys1 r1 where pa: "produce_assets env params assets (html_doc h) = (d, ys1, r1)"
    by (cases "produce_assets env params assets (html_doc h)")
  from produce_assets_yield [OF pa] obtain fss where fss: "ys1 = concat fss"
    "list_all2 (artifacts_of env params) (take (length fss) assets) fss"
    "r1 = None \<longrightarrow> length fss = length assets" "r1 \<noteq> None \<longrightarrow> length fss < length assets"
    by blast
  show ?thesis
  proof (cases r1)
    case (Some e)
    with assms pa have "ys = ys1" "r = Some e" by (simp_all add: generator_def)
    with fss Some show ?thesis by auto
  next
    case None
    let ?html = "\<lparr>file_name = html_filename h,
       file_bytes = docType @ encode (outerHTML env d),
       lastModified = 0, file_type = ''text/html''\<rparr>"
    let ?rest = "if mainAs404 opts
       then [new_File env [ArrayBuffer (file_bytes ?html)] ''404'' (spread_File ?html)] else []"
    from assms pa None have out: "ys = ys1 @ ?html # ?rest" "r = None"
      by (auto simp: generator_def HtmlAsset_file Let_def split: if_splits)
    have "file_name ?html = html_filename h" by simp
    moreover have "take 15 (file_bytes ?html) = ascii ''<!DOCTYPE html>''"
      by (simp only: File.simps take_docType)
    moreover have "if mainAs404 opts
        then \<exists>f. ?rest = [f] \<and> file_name f = ''404'' \<and> file_bytes f = file_bytes ?html
        else ?rest = []"
      by (simp add: new_File_def part_bytes_def)
    ultimately have html: "\<exists>html rest. ys = concat fss @ html # rest
                  \<and> file_name html = html_filename h
                  \<and> take 15 (file_bytes html) = ascii ''<!DOCTYPE html>''
                  \<and> (if mainAs404 opts
                      then \<exists>f. rest = [f] \<and> file_name f = ''404''
                             \<and> file_bytes f = file_bytes html
                      else rest = [])"
      using out(1) fss(1) by blast
    from fss None have len: "length fss = length assets" by simp
    from out(2) have r: "r = None" .
    show ?thesis
    proof (intro exI [where x = fss] conjI impI)
      show "list_all2 (artifacts_of env params) (take (length fss) assets) fss" by (rule fss(2))
      show "length fss = length assets" by (rule len)
      show "\<exists>html rest. ys = concat fss @ html # rest
                  \<and> file_name html = html_filename h
                  \<and> take 15 (file_bytes html) = ascii ''<!DOCTYPE html>''
                  \<and> (if mainAs404 opts
                      then \<exists>f. rest = [f] \<and> file_name f = ''404''
                             \<and> file_bytes f = file_bytes html
                      else rest = [])" by (rule html)
    next
      assume "r \<noteq> None"
      with r show "length fss < length assets" by simp
    next
      assume "r \<noteq> None"
      with r show "ys = concat fss" by simp
    qed
  qed
qed

lemma generateAssets_InrD:
  assumes "generateAssets env path opts = Inr (gen, paths)"
  obtains h h' where "HtmlAsset_create env path = Inr h"
    "html_filename h' = html_filename h"
    "gen = generator env h' (extractReferencedAssets (html_doc h))
             \<lparr>pageName = html_pageName h, base = html_base h,
               pathPrefix = (if publicUrl opts = [] then ''.'' else publicUrl opts)\<rparr> opts"
proof (cases "HtmlAsset_create env path")
  case (Inl e)
  with assms show ?thesis by (simp add: generateAssets_def)
next
  case (Inr h)
  let ?h' = "if insertLivereloadScript opts
                  then insertScriptTag h
                         (''http://localhost:'' @ template (map_option (Number_toString env) (livereloadPort opts))
                            @ ''/livereload.js'')
                  else h"
  have "html_filename ?h' = html_filename h"
    by (simp add: insertScriptTag_def)
  moreover from assms Inr
  have "gen = generator env ?h' (extractReferencedAssets (html_doc h))
             \<lparr>pageName = html_pageName h, base = html_base h,
               pathPrefix = (if publicUrl opts = [] then ''.'' else publicUrl opts)\<rparr> opts"
    unfolding generateAssets_def Let_def
    by (simp split: if_splits sum.splits)
  ultimately show ?thesis using Inr that by blast
qed

text \<open>
  C3. When \<open>generateAssets\<close> returns its generator, the files the generator yields begin
  with the artifacts of discovered assets, asset by asset in discovery order. If the
  generator ends without an error, every discovered asset has given its artifacts, the
  next file is the HTML artifact, named as the entrypoint, whose bytes begin with the
  fifteen bytes of \<open><!DOCTYPE html>\<close>, and nothing follows it but the copy named \<open>404\<close>,
  with the same bytes, when \<open>mainAs404\<close> is set. If an error ends the generator, it has
  yielded the artifacts of some of the assets and nothing else.
\<close>

theorem C3_html_artifact_last:
  assumes "generateAssets env path opts = Inr ((yielded, r), paths)"
  shows "\<exists>h fss. HtmlAsset_create env path = Inr h
       \<and> list_all2
            (artifacts_of env
               \<lparr>pageName = html_pageName h, base = html_base h,
                 pathPrefix = (if publicUrl opts = [] then ''.'' else publicUrl opts)\<rparr>)
            (take (length fss) (extractReferencedAssets (html_doc h))) fss
       \<and> (r = None \<longrightarrow> length fss = length (extractReferencedAssets (html_doc h))
            \<and> (\<exists>html rest. yielded = concat fss @ html # rest
                  \<and> file_name html = basename env path
                  \<and> take 15 (file_bytes html) = ascii ''<!DOCTYPE html>''
                  \<and> (if mainAs404 opts
                      then \<exists>f. rest = [f] \<and> file_name f = ''404''
                             \<and> file_bytes f = file_bytes html
                      else rest = [])))
       \<and> (r \<noteq> None \<longrightarrow> length fss < length (extractReferencedAssets (html_doc h))
            \<and> yielded = concat fss)"
proof -
  from assms obtain h h' where h: "HtmlAsset_create env path = Inr h"
    and name: "html_filename h' = html_filename h"
    and gen: "generator env h' (extractReferencedAssets (html_doc h))
             \<lparr>pageName = html_pageName h, base = html_base h,
               pathPrefix = (if publicUrl opts = [] then ''.'' else publicUrl opts)\<rparr> opts
          = (yielded, r)"
    by (rule generateAssets_InrD) simp
  from h have base: "html_filename h = basename env path"
    by (auto simp: HtmlAsset_create_def HtmlAsset_new_def Let_def split: sum.splits if_splits)
  from generator_yield [OF gen] h show ?thesis
    unfolding name base by blast
qed

text \<open>The cycle of the sample site, with its three assets and the fallback.\<close>

theorem C3_html_artifact_last_witness:
  "\<exists>ys paths h fss html f.
      generateAssets site_env ''site/index.html'' fallback_options = Inr ((ys, None), paths)
    \<and> map file_name ys = [''index.06.js'', ''index.03.css'', ''index.05.png'', ''index.html'', ''404'']
    \<and> HtmlAsset_create site_env ''site/index.html'' = Inr h
    \<and> length fss = length (extractReferencedAssets (html_doc h))
    \<and> ys = concat fss @ [html, f]
    \<and> take 15 (file_bytes html) = ascii ''<!DOCTYPE html>''
    \<and> file_name f = ''404''"
proof -
  from site_cycle obtain ys paths where
    run: "generateAssets site_env ''site/index.html'' fallback_options = Inr ((ys, None), paths)"
    and names: "map file_name ys
      = [''index.06.js'', ''index.03.css'', ''index.05.png'', ''index.html'', ''404'']"
    by (auto split: sum.splits)
  from C3_html_artifact_last [OF run] obtain h fss html rest where
    h: "HtmlAsset_create site_env ''site/index.html'' = Inr h"
    and len: "length fss = length (extractReferencedAssets (html_doc h))"
    and ys: "ys = concat fss @ html # rest"
    and doctype: "take 15 (file_bytes html) = ascii ''<!DOCTYPE html>''"
    and rest: "if mainAs404 fallback_options
               then \<exists>f. rest = [f] \<and> file_name f = ''404'' \<and> file_bytes f = file_bytes html
               else rest = []"
    by blast
  from rest fallback_on obtain f where f: "rest = [f]" and fname: "file_name f = ''404''"
    by auto
  from ys f have ys': "ys = concat fss @ [html, f]"
    by simp
  from run names h len ys' doctype fname
  have "generateAssets site_env ''site/index.html'' fallback_options = Inr ((ys, None), paths)
    \<and> map file_name ys = [''index.06.js'', ''index.03.css'', ''index.05.png'', ''index.html'', ''404'']
    \<and> HtmlAsset_create site_env ''site/index.html'' = Inr h
    \<and> length fss = length (extractReferencedAssets (html_doc h))
    \<and> ys = concat fss @ [html, f]
    \<and> take 15 (file_bytes html) = ascii ''<!DOCTYPE html>''
    \<and> file_name f = ''404''"
    by (intro conjI)
  then show ?thesis
    by (intro exI)
qed

section \<open>Discovery\<close>

lemma qs_set: "i \<in> set (qs doc t) \<longleftrightarrow> i < length doc \<and> tagName (doc ! i) = map to_upper t"
  by (auto simp: qs_def querySelectorAll_def)

lemma qs_tags:
  "i \<in> set (qs doc ''script'') \<longleftrightarrow> i < length doc \<and> tagName (doc ! i) = ''SCRIPT''"
  "i \<in> set (qs doc ''link'') \<longleftrightarrow> i < length doc \<and> tagName (doc ! i) = ''LINK''"
  "i \<in> set (qs doc ''img'') \<longleftrightarrow> i < length doc \<and> tagName (doc ! i) = ''IMG''"
  "i \<in> set (qs doc ''source'') \<longleftrightarrow> i < length doc \<and> tagName (doc ! i) = ''SOURCE''"
  unfolding qs_set upper_tags by (rule refl)+

lemma qs_sorted: "sorted_wrt (<) (qs doc t)"
  by (simp add: qs_def querySelectorAll_def sorted_wrt_filter)

lemma map_filter_set: "a \<in> set (List.map_filter f xs) \<longleftrightarrow> (\<exists>x\<in>set xs. f x = Some a)"
  by (induction xs) (auto simp: map_filter_simps split: option.splits)

lemma map_filter_append: "List.map_filter f (xs @ ys) = List.map_filter f xs @ List.map_filter f ys"
  by (simp add: map_filter_def)

lemma map_filter_elements:
  assumes "\<And>i a. f i = Some a \<Longrightarrow> g a = i"
  shows "map g (List.map_filter f xs) = filter (\<lambda>i. f i \<noteq> None) xs"
  using assms by (induction xs) (auto simp: map_filter_simps split: option.splits)

lemma group_order:
  assumes "\<And>i a. f i = Some a \<Longrightarrow> asset_element a = i"
  shows "in_document_order (List.map_filter f (qs doc t))"
proof -
  have "map asset_element (List.map_filter f (qs doc t)) = filter (\<lambda>i. f i \<noteq> None) (qs doc t)"
    by (rule map_filter_elements) (rule assms)
  moreover have "sorted_wrt (<) (filter (\<lambda>i. f i \<noteq> None) (qs doc t))"
    by (rule sorted_wrt_filter) (rule qs_sorted)
  ultimately show ?thesis
    by (simp only: in_document_order_def)
qed

lemma ScriptAsset_create_Some:
  "ScriptAsset_create doc i = Some a \<Longrightarrow> asset_element a = i \<and> is_script a"
  by (auto simp: ScriptAsset_create_def split: option.splits if_splits)

lemma CssAsset_create_Some:
  "CssAsset_create doc i = Some a \<Longrightarrow> asset_element a = i \<and> is_stylesheet a"
  by (auto simp: CssAsset_create_def Let_def split: option.splits if_splits)

lemma ImageAsset_create_Some:
  "ImageAsset_create doc i = Some a \<Longrightarrow> asset_element a = i \<and> is_image a"
  by (auto simp: ImageAsset_create_def Let_def split: if_splits)

lemma kinds_disjoint:
  "is_script a \<Longrightarrow> \<not> is_stylesheet a \<and> \<not> is_image a"
  "is_stylesheet a \<Longrightarrow> \<not> is_script a \<and> \<not> is_image a"
  "is_image a \<Longrightarrow> \<not> is_script a \<and> \<not> is_stylesheet a"
  by (cases a; simp)+

lemma filter_all: "(\<And>x. x \<in> set xs \<Longrightarrow> P x) \<Longrightarrow> filter P xs = xs"
  by (induction xs) auto

lemma filter_none: "(\<And>x. x \<in> set xs \<Longrightarrow> \<not> P x) \<Longrightarrow> filter P xs = []"
  by (induction xs) auto

text \<open>
  C4, as the code has it. The discovered assets are the script assets, then the
  stylesheet assets, then the image assets of \<open>img\<close> elements, then the image assets of
  \<open>source\<close> elements, and each of these four groups is in document order. An asset is
  discovered exactly when it is what \<open>ScriptAsset.create\<close> gives for a \<open>script\<close> element,
  \<open>CssAsset.create\<close> for a \<open>link\<close> element, or \<open>ImageAsset.create\<close> for an \<open>img\<close> or
  \<open>source\<close> element of the document.
\<close>

theorem C4_discovery_order:
  "extractReferencedAssets doc =
       filter is_script (extractReferencedAssets doc)
     @ filter is_stylesheet (extractReferencedAssets doc)
     @ filter (from_tag doc ''IMG'') (filter is_image (extractReferencedAssets doc))
     @ filter (from_tag doc ''SOURCE'') (filter is_image (extractReferencedAssets doc))
   \<and> in_document_order (filter is_script (extractReferencedAssets doc))
   \<and> in_document_order (filter is_stylesheet (extractReferencedAssets doc))
   \<and> in_document_order
        (filter (from_tag doc ''IMG'') (filter is_image (extractReferencedAssets doc)))
   \<and> in_document_order
        (filter (from_tag doc ''SOURCE'') (filter is_image (extractReferencedAssets doc)))
   \<and> (\<forall>a. a \<in> set (extractReferencedAssets doc) \<longleftrightarrow>
          (\<exists>i<length doc.
              (tagName (doc ! i) = ''SCRIPT'' \<and> ScriptAsset_create doc i = Some a)
            \<or> (tagName (doc ! i) = ''LINK'' \<and> CssAsset_create doc i = Some a)
            \<or> ((tagName (doc ! i) = ''IMG'' \<or> tagName (doc ! i) = ''SOURCE'')
                \<and> ImageAsset_create doc i = Some a)))"
proof -
  define S where "S = List.map_filter (ScriptAsset_create doc) (qs doc ''script'')"
  define L where "L = List.map_filter (CssAsset_create doc) (qs doc ''link'')"
  define I where "I = List.map_filter (ImageAsset_create doc) (qs doc ''img'')"
  define R where "R = List.map_filter (ImageAsset_create doc) (qs doc ''source'')"
  have A: "extractReferencedAssets doc = S @ L @ I @ R"
    by (simp add: extractReferencedAssets_def extractReferencedScripts_def
        extractReferencedStyleSheets_def extractReferencedImages_def map_filter_append
        S_def L_def I_def R_def)
  have S: "is_script a \<and> \<not> is_stylesheet a \<and> \<not> is_image a"
    if "a \<in> set S" for a
    using that ScriptAsset_create_Some [of doc _ a] kinds_disjoint(1) [of a]
    by (auto simp: S_def map_filter_set)
  have L: "is_stylesheet a \<and> \<not> is_script a \<and> \<not> is_image a"
    if "a \<in> set L" for a
    using that CssAsset_create_Some [of doc _ a] kinds_disjoint(2) [of a]
    by (auto simp: L_def map_filter_set)
  have I: "is_image a \<and> \<not> is_script a \<and> \<not> is_stylesheet a
      \<and> from_tag doc ''IMG'' a \<and> \<not> from_tag doc ''SOURCE'' a"
    if "a \<in> set I" for a
    using that ImageAsset_create_Some [of doc _ a] kinds_disjoint(3) [of a]
    by (auto simp: I_def map_filter_set qs_tags from_tag_def)
  have R: "is_image a \<and> \<not> is_script a \<and> \<not> is_stylesheet a
      \<and> from_tag doc ''SOURCE'' a \<and> \<not> from_tag doc ''IMG'' a"
    if "a \<in> set R" for a
    using that ImageAsset_create_Some [of doc _ a] kinds_disjoint(3) [of a]
    by (auto simp: R_def map_filter_set qs_tags from_tag_def)
  have fS: "filter is_script (S @ L @ I @ R) = S"
    using S L I R by (simp add: filter_all filter_none)
  have fL: "filter is_stylesheet (S @ L @ I @ R) = L"
    using S L I R by (simp add: filter_all filter_none)
  have fI: "filter is_image (S @ L @ I @ R) = I @ R"
    using S L I R by (simp add: filter_all filter_none)
  have fII: "filter (from_tag doc ''IMG'') (I @ R) = I"
    using I R by (simp add: filter_all filter_none)
  have fIR: "filter (from_tag doc ''SOURCE'') (I @ R) = R"
    using I R by (simp add: filter_all filter_none)
  have oS: "in_document_order S"
    unfolding S_def by (rule group_order) (simp add: ScriptAsset_create_Some)
  have oL: "in_document_order L"
    unfolding L_def by (rule group_order) (simp add: CssAsset_create_Some)
  have oI: "in_document_order I"
    unfolding I_def by (rule group_order) (simp add: ImageAsset_create_Some)
  have oR: "in_document_order R"
    unfolding R_def by (rule group_order) (simp add: ImageAsset_create_Some)
  have mem: "a \<in> set (S @ L @ I @ R) \<longleftrightarrow>
          (\<exists>i<length doc.
              (tagName (doc ! i) = ''SCRIPT'' \<and> ScriptAsset_create doc i = Some a)
            \<or> (tagName (doc ! i) = ''LINK'' \<and> CssAsset_create doc i = Some a)
            \<or> ((tagName (doc ! i) = ''IMG'' \<or> tagName (doc ! i) = ''SOURCE'')
                \<and> ImageAsset_create doc i = Some a))" for a
    unfolding S_def L_def I_def R_def set_append Un_iff map_filter_set Bex_def qs_tags
    by blast
  show ?thesis
    unfolding A fS fL fI fII fIR using oS oL oI oR mem by simp
qed

text \<open>
  C4, as stated, fails: for a \<open>source\<close> followed by an \<open>img\<close> the asset of the \<open>img\<close>
  comes first, so the image assets are not in document order.
\<close>

theorem C4_document_order_counterexample:
  "extractReferencedAssets picture_doc = [ImageAsset [''a.png''] 1, ImageAsset [''a.webp''] 0]
   \<and> \<not> in_document_order (filter is_image (extractReferencedAssets picture_doc))"
  by (simp add: picture_doc_assets in_document_order_def)

text \<open>The same document: each of its two groups of image assets is in document order.\<close>

theorem C4_discovery_order_witness:
  "extractReferencedAssets picture_doc = [ImageAsset [''a.png''] 1, ImageAsset [''a.webp''] 0]
   \<and> in_document_order
        (filter (from_tag picture_doc ''IMG'')
           (filter is_image [ImageAsset [''a.png''] 1, ImageAsset [''a.webp''] 0]))
   \<and> in_document_order
        (filter (from_tag picture_doc ''SOURCE'')
           (filter is_image [ImageAsset [''a.png''] 1, ImageAsset [''a.webp''] 0]))"
  using C4_discovery_order [of picture_doc]
  unfolding picture_doc_assets by (intro conjI) (rule refl, blast+)

lemma uniq_set: "set (uniq xs) = set xs" and uniq_distinct: "distinct (uniq xs)"
  by (simp_all add: uniq_def)

text \<open>
  C5, as the code has it. For an \<open>img\<close> or \<open>source\<close> element, \<open>ImageAsset.create\<close> gives an
  asset exactly when the element is not an \<open>img\<close> with a missing or empty \<open>src\<close> and the
  local sources collected from \<open>src\<close> and \<open>srcset\<close> are not empty. The asset holds the
  element and exactly those sources, each once.
\<close>

theorem C5_image_discovery:
  assumes "img < length doc"
  shows "(ImageAsset_create doc img \<noteq> None \<longleftrightarrow>
            (tagName (doc ! img) \<noteq> ''IMG'' \<or> truthy (getAttribute doc img ''src''))
            \<and> set (collect_sources (getAttribute doc img ''src'')
                      (getAttribute doc img ''srcset'')) \<noteq> {})
       \<and> (\<forall>a. ImageAsset_create doc img = Some a \<longrightarrow>
             (\<exists>sources. a = ImageAsset sources img \<and> distinct sources
                \<and> set sources = set (collect_sources (getAttribute doc img ''src'')
                                        (getAttribute doc img ''srcset''))))"
proof -
  let ?cs = "collect_sources (getAttribute doc img ''src'') (getAttribute doc img ''srcset'')"
  have empty: "uniq ?cs = [] \<longleftrightarrow> set ?cs = {}"
    using uniq_set [of ?cs] by (metis set_empty)
  show ?thesis
  proof (cases "tagName (doc ! img) = ''IMG'' \<and> \<not> truthy (getAttribute doc img ''src'')")
    case True
    with assms have "ImageAsset_create doc img = None"
      by (simp add: ImageAsset_create_def)
    with True show ?thesis by simp
  next
    case False
    show ?thesis
    proof (cases "uniq ?cs = []")
      case True
      with False have "ImageAsset_create doc img = None"
        by (simp add: ImageAsset_create_def Let_def)
      with True empty show ?thesis by simp
    next
      case nonempty: False
      with False have "ImageAsset_create doc img = Some (ImageAsset (uniq ?cs) img)"
        by (simp add: ImageAsset_create_def Let_def)
      moreover have "distinct (uniq ?cs)" "set (uniq ?cs) = set ?cs"
        by (simp_all add: uniq_set uniq_distinct)
      ultimately show ?thesis
        using False nonempty empty by auto
    qed
  qed
qed

text \<open>
  C5, as stated, fails: an \<open>img\<close> with a local \<open>srcset\<close> and no \<open>src\<close> gives no asset,
  although its local sources are not empty.
\<close>

theorem C5_img_without_src_counterexample:
  "ImageAsset_create srcset_image 0 = None
   \<and> set (collect_sources (getAttribute srcset_image 0 ''src'')
            (getAttribute srcset_image 0 ''srcset'')) = {''a.png''}"
  by (simp add: srcset_image_create srcset_image_sources)

text \<open>A \<open>source\<close> element with two local sources in its \<open>srcset\<close>.\<close>

theorem C5_image_discovery_witness:
  "0 < length picture_source
   \<and> ImageAsset_create picture_source 0 = Some (ImageAsset [''a.png'', ''2x''] 0)
   \<and> set (collect_sources (getAttribute picture_source 0 ''src'')
             (getAttribute picture_source 0 ''srcset'')) = set [''a.png'', ''2x'']"
proof -
  have len: "0 < length picture_source"
    by (simp add: picture_source_def)
  from C5_image_discovery [OF len, THEN conjunct2, rule_format, OF picture_create]
  obtain sources where eq: "ImageAsset [''a.png'', ''2x''] 0 = ImageAsset sources 0"
    and st: "set sources = set (collect_sources (getAttribute picture_source 0 ''src'')
                                        (getAttribute picture_source 0 ''srcset''))"
    by (elim exE conjE)
  from eq have "sources = [''a.png'', ''2x'']"
    by (simp only: asset.inject)
  with st have "set (collect_sources (getAttribute picture_source 0 ''src'')
             (getAttribute picture_source 0 ''srcset'')) = set [''a.png'', ''2x'']"
    by (simp only:)
  with len picture_create show ?thesis by (intro conjI)
qed

section \<open>Rewriting the image references\<close>

text \<open>
  C6. An image whose \<open>src\<close> is remote and whose \<open>srcset\<close> names the local file \<open>a.png\<close>:
  the only source is \<open>a.png\<close>, the \<open>src\<close> attribute is not equal to it, and artifact
  production overwrites \<open>src\<close> with the name of the local artifact, because \<open>match\<close>
  finds the source inside the remote address.
\<close>

theorem C6_remote_src_rewritten:
  "ImageAsset_create cdn_image 0 = Some (ImageAsset [''a.png''] 0)
   \<and> getAttribute cdn_image 0 ''src'' = Some ''http://cdn/a.png''
   \<and> createFileObject site_env index_params (ImageAsset [''a.png''] 0) cdn_image =
     Inr ([\<lparr>tagName = ''IMG'',
            attributes = [(''src'', ''index.05.png''), (''srcset'', ''index.05.png 2x'')]\<rparr>],
          [\<lparr>file_name = ''index.05.png'', file_bytes = [1, 2, 3], lastModified = 0,
             file_type = ''image/png''\<rparr>])"
  by (simp add: ImageAsset_createFileObject_def cdn_create cdn_src cdn_step)

text \<open>
  C7, as the code has it. When a round of the loop succeeds and the \<open>srcset\<close> value
  contains the source, the new value is the old one with the first occurrence of the
  source replaced by the joined prefix and file name, provided that replacement text has
  no dollar sign: the text before and after that occurrence is unchanged.
\<close>

theorem C7_srcset_first_occurrence:
  assumes step: "ImageAsset_step env params el src doc = Inr (doc', f)"
    and attr: "getAttribute doc el ''srcset'' = Some srcset"
    and dec: "srcset = pre @ src @ post"
    and least: "\<forall>pre' post'. srcset = pre' @ src @ post' \<longrightarrow> length pre \<le> length pre'"
    and plain: "CHR ''$'' \<notin> set (posixPathJoin env (pathPrefix params) (file_name f))"
  shows "getAttribute doc' el ''srcset''
           = Some (pre @ posixPathJoin env (pathPrefix params) (file_name f) @ post)"
proof -
  from step obtain data matched where
    f: "f = new_File env [Uint8Array data]
           (pageName params @ ''.'' @ md5 env (Uint8Array data) @ ''.'' @ template (match_extension src))
           \<lparr>opt_lastModified = Some 0, opt_type = Some (''image/'' @ template (match_extension src))\<rparr>"
    and d: "doc' =
       (let dest = pageName params @ ''.'' @ md5 env (Uint8Array data) @ ''.''
                     @ template (match_extension src);
            doc1 = (if matched
                    then setAttribute doc el ''src'' (posixPathJoin env (pathPrefix params) dest)
                    else doc)
        in case getAttribute doc1 el ''srcset'' of
             None \<Rightarrow> doc1
           | Some srcset \<Rightarrow>
               if str_includes srcset src
               then setAttribute doc1 el ''srcset''
                      (str_replace srcset src (posixPathJoin env (pathPrefix params) dest))
               else doc1)"
    by (rule ImageAsset_step_InrD)
  define dest where "dest = pageName params @ ''.'' @ md5 env (Uint8Array data) @ ''.''
                     @ template (match_extension src)"
  define doc1 where "doc1 = (if matched
                    then setAttribute doc el ''src'' (posixPathJoin env (pathPrefix params) dest)
                    else doc)"
  from f have name: "file_name f = dest" by (simp add: new_File_def dest_def)
  from attr have el: "el < length doc" by (rule getAttribute_SomeD)
  then have el1: "el < length doc1" by (simp add: doc1_def length_setAttribute)
  from attr have attr1: "getAttribute doc1 el ''srcset'' = Some srcset"
    by (simp add: doc1_def getAttribute_setAttribute)
  from plain name have plain': "CHR ''$'' \<notin> set (posixPathJoin env (pathPrefix params) dest)"
    by simp
  note rep = str_replace_first [OF dec least plain']
  from d have "doc' = setAttribute doc1 el ''srcset''
                 (pre @ posixPathJoin env (pathPrefix params) dest @ post)"
    unfolding Let_def dest_def [symmetric] doc1_def [symmetric]
    by (simp add: attr1 rep)
  with el1 name show ?thesis by (simp add: getAttribute_setAttribute)
qed

text \<open>
  C7, as stated, fails: the second source of this element is first found in the
  descriptor of the first entry, and the descriptor is replaced by the file name.
\<close>

theorem C7_descriptor_counterexample:
  "ImageAsset_create picture_source 0 = Some (ImageAsset [''a.png'', ''2x''] 0)
   \<and> createFileObject site_env index_params (ImageAsset [''a.png'', ''2x''] 0) picture_source =
     Inr ([\<lparr>tagName = ''SOURCE'',
            attributes = [(''srcset'', ''index.05.png index.03.undefined, 2x 3x'')]\<rparr>],
          [\<lparr>file_name = ''index.05.png'', file_bytes = [1, 2, 3], lastModified = 0,
             file_type = ''image/png''\<rparr>,
           \<lparr>file_name = ''index.03.undefined'', file_bytes = [4, 5], lastModified = 0,
             file_type = ''image/undefined''\<rparr>])
   \<and> srcset_descriptors ''a.png 2x, 2x 3x'' = [[''2x''], [''3x'']]
   \<and> srcset_descriptors ''index.05.png index.03.undefined, 2x 3x''
       = [[''index.03.undefined''], [''3x'']]"
  by (simp add: ImageAsset_createFileObject_def picture_step_png picture_step_2x picture_create
      picture_descriptors picture_descriptors_after)

text \<open>The first round on the same element, where the first occurrence is the URL itself.\<close>

theorem C7_srcset_first_occurrence_witness:
  "getAttribute
     [\<lparr>tagName = ''SOURCE'', attributes = [(''srcset'', ''index.05.png 2x, 2x 3x'')]\<rparr>]
     0 ''srcset''
   = Some (''index.05.png'' @ '' 2x, 2x 3x'')"
proof -
  have dec: "''a.png 2x, 2x 3x'' = [] @ ''a.png'' @ '' 2x, 2x 3x''"
    by simp
  have least: "\<forall>pre' post'. ''a.png 2x, 2x 3x'' = pre' @ ''a.png'' @ post'
      \<longrightarrow> length ([] :: string) \<le> length pre'"
    by simp
  have plain: "CHR ''$'' \<notin> set (posixPathJoin site_env (pathPrefix index_params)
      (file_name \<lparr>file_name = ''index.05.png'', file_bytes = [1, 2, 3], lastModified = 0,
            file_type = ''image/png''\<rparr>))"
    by (simp add: index_prefix site_posix_join)
  from C7_srcset_first_occurrence [OF picture_step_png picture_srcset dec least plain]
  show ?thesis
    by (simp add: index_prefix site_posix_join)
qed





section \<open>Preprocessed stylesheets\<close>

text \<open>
  C8. A stylesheet link whose \<open>href\<close> ends in \<open>.scss\<close> is discovered as a \<open>ScssAsset\<close>. When
  the file can be read and the preprocessor compiles it, artifact production gives one
  file, named by the page name, the \<open>md5\<close> of the bytes read and \<open>css\<close>, whose bytes are
  the output of the preprocessor, and sets \<open>href\<close> to the joined prefix and file name.
\<close>

theorem C8_preprocessed_stylesheet:
  assumes create: "CssAsset_create doc link = Some a"
    and href: "getAttribute doc link ''href'' = Some href"
    and ext: "endsWith href ''.scss''"
    and read: "readFile env (join env (base params) href) = Inr scss"
    and compile: "compileSass env (decode env scss) = Inr css"
    and el: "link < length doc1"
  shows "a = ScssAsset href link
       \<and> (\<exists>doc'. createFileObject env params a doc1 =
             Inr (doc', [\<lparr>file_name = pageName params @ ''.'' @ md5 env (Uint8Array scss) @ ''.css'',
                          file_bytes = part_bytes css, lastModified = 0,
                          file_type = ''text/css''\<rparr>])
            \<and> getAttribute doc' link ''href''
                = Some (posixPathJoin env (pathPrefix params)
                          (pageName params @ ''.'' @ md5 env (Uint8Array scss) @ ''.css'')))"
proof -
  from create href ext have a: "a = ScssAsset href link"
    by (auto simp: CssAsset_create_def Let_def split: if_splits)
  from el have "getAttribute (setAttribute doc1 link ''href''
            (posixPathJoin env (pathPrefix params)
               (pageName params @ ''.'' @ md5 env (Uint8Array scss) @ ''.css''))) link ''href''
      = Some (posixPathJoin env (pathPrefix params)
                (pageName params @ ''.'' @ md5 env (Uint8Array scss) @ ''.css''))"
    by (simp add: getAttribute_setAttribute)
  with a ScssAsset_run [OF read compile, of link doc1] show ?thesis
    by simp
qed

text \<open>The stylesheet \<open>theme.scss\<close> of the sample site.\<close>

theorem C8_preprocessed_stylesheet_witness:
  "\<exists>doc'. createFileObject site_env index_params (ScssAsset ''theme.scss'' 0) theme_link =
      Inr (doc', [\<lparr>file_name = ''index.07.css'', file_bytes = [99, 115, 115],
                   lastModified = 0, file_type = ''text/css''\<rparr>])
     \<and> getAttribute doc' 0 ''href'' = Some ''index.07.css''"
proof -
  have el: "0 < length theme_link"
    by (simp add: theme_link_def)
  have join: "posixPathJoin site_env ''.'' ''index.07.css'' = ''index.07.css''"
    by (simp add: site_env_def)
  from C8_preprocessed_stylesheet
    [OF theme_create theme_href theme_ext theme_read theme_compile el]
  show ?thesis
    by (simp add: theme_md5 css_bytes join index_params_def)
qed

section \<open>The entry document\<close>

text \<open>
  C9. The constructor of the entry document throws exactly when the file name of the
  entrypoint does not end in \<open>.html\<close> or nothing is left of it without that extension.
  For every other file name it returns the entry document, whose page name is the file
  name without the extension.
\<close>

theorem C9_entrypoint_checks:
  "((\<exists>e. HtmlAsset_new env html path = Inl e) \<longleftrightarrow>
      (\<not> endsWith (basename env path) ''.html'' \<or> strip_html (basename env path) = []))
   \<and> (endsWith (basename env path) ''.html'' \<and> strip_html (basename env path) \<noteq> [] \<longrightarrow>
        (\<exists>h. HtmlAsset_new env html path = Inr h
           \<and> html_pageName h = strip_html (basename env path)
           \<and> html_pageName h @ ''.html'' = basename env path))"
  by (auto simp: HtmlAsset_new_def Let_def strip_html_append)

text \<open>The page of the sample site.\<close>

theorem C9_entrypoint_checks_witness:
  "endsWith (basename site_env ''site/index.html'') ''.html''
   \<and> strip_html (basename site_env ''site/index.html'') \<noteq> []
   \<and> (\<exists>h. HtmlAsset_new site_env site_html ''site/index.html'' = Inr h
          \<and> html_pageName h = ''index'')"
proof -
  have ok: "endsWith (basename site_env ''site/index.html'') ''.html''
      \<and> strip_html (basename site_env ''site/index.html'') \<noteq> []"
    by (simp add: site_basename endsWith_def strip_html_def)
  have name: "strip_html (basename site_env ''site/index.html'') = ''index''"
    by (simp add: site_basename endsWith_def strip_html_def)
  from C9_entrypoint_checks [of site_env site_html "''site/index.html''"] ok
  obtain h where "HtmlAsset_new site_env site_html ''site/index.html'' = Inr h"
    and "html_pageName h = strip_html (basename site_env ''site/index.html'')"
    by blast
  with ok name show ?thesis by simp
qed

end
